theory Spec2Isabelle
  imports Complex_Main
begin

section \<open>Numbers\<close>

text \<open>
  The planner computes in C++ \<open>double\<close> (and \<open>float\<close> for the laser ranges). The
  embedding idealises finite floating-point values as real numbers: rounding error,
  overflow to infinity and signed zeros are not modelled. Real arithmetic is total except
  for division by zero and the square root of a negative number; at exactly those
  operations the embedding follows IEEE 754 instead of HOL's conventions
  (\<open>x / 0 = 0\<close>, \<open>sqrt (- x) = - sqrt x\<close>): the result is an infinity or a NaN, and a
  comparison with a NaN is false.
\<close>

datatype dbl = Finite real | PosInf | NegInf | NaN

definition fdiv :: "real \<Rightarrow> real \<Rightarrow> dbl" where
  \<comment> \<open>\<open>x / y\<close> on two finite doubles\<close>
  "fdiv x y =
     (if y \<noteq> 0 then Finite (x / y)
      else if 0 < x then PosInf
      else if x < 0 then NegInf
      else NaN)"

definition fsqrt :: "real \<Rightarrow> dbl" where
  \<comment> \<open>\<open>sqrt(x)\<close> on a finite double\<close>
  "fsqrt x = (if x < 0 then NaN else Finite (sqrt x))"

fun fneg :: "dbl \<Rightarrow> dbl" where
  "fneg (Finite a) = Finite (- a)"
| "fneg PosInf = NegInf"
| "fneg NegInf = PosInf"
| "fneg NaN = NaN"

fun fabs :: "dbl \<Rightarrow> dbl" where
  "fabs (Finite a) = Finite \<bar>a\<bar>"
| "fabs PosInf = PosInf"
| "fabs NegInf = PosInf"
| "fabs NaN = NaN"

fun fmul :: "dbl \<Rightarrow> dbl \<Rightarrow> dbl" where
  "fmul (Finite a) (Finite b) = Finite (a * b)"
| "fmul NaN d = NaN"
| "fmul d NaN = NaN"
| "fmul (Finite a) d = (if a = 0 then NaN else if 0 < a then d else fneg d)"
| "fmul d (Finite a) = (if a = 0 then NaN else if 0 < a then d else fneg d)"
| "fmul PosInf d = d"
| "fmul NegInf d = fneg d"

fun flt :: "dbl \<Rightarrow> dbl \<Rightarrow> bool" where
  \<comment> \<open>\<open>a < b\<close>\<close>
  "flt NaN d = False"
| "flt d NaN = False"
| "flt (Finite a) (Finite b) = (a < b)"
| "flt PosInf d = False"
| "flt d PosInf = True"
| "flt d NegInf = False"
| "flt NegInf d = True"

fun fle :: "dbl \<Rightarrow> dbl \<Rightarrow> bool" where
  \<comment> \<open>\<open>a <= b\<close>\<close>
  "fle NaN d = False"
| "fle d NaN = False"
| "fle (Finite a) (Finite b) = (a \<le> b)"
| "fle d PosInf = True"
| "fle NegInf d = True"
| "fle PosInf d = False"
| "fle d NegInf = False"

definition std_min :: "dbl \<Rightarrow> dbl \<Rightarrow> dbl" where
  \<comment> \<open>\<open>std::min(a, b)\<close> is \<open>(b < a) ? b : a\<close>\<close>
  "std_min a b = (if flt b a then b else a)"

definition trunc :: "real \<Rightarrow> int" where
  \<comment> \<open>conversion of a double to an integer type discards the fractional part\<close>
  "trunc r = (if 0 \<le> r then \<lfloor>r\<rfloor> else \<lceil>r\<rceil>)"

definition INT_MIN :: int where
  "INT_MIN = - (2 ^ 31)"

definition INT_MAX :: int where
  "INT_MAX = 2 ^ 31 - 1"

definition in_int :: "int \<Rightarrow> bool" where
  "in_int i \<longleftrightarrow> INT_MIN \<le> i \<and> i \<le> INT_MAX"


section \<open>The rotational reference generator\<close>

definition sign :: "real \<Rightarrow> int" where
  \<comment> \<open>Modelled from the spec: the helper \<open>sign\<close> is declared in the header
      \<open>tue_carrot_planner/carrot_planner.h\<close>, which is not among the sources. The spec
      gives the final velocity as \<open>sign(error) * |v|\<close> and says that a zero error with
      nonzero previous velocity still drives a full deceleration ramp rather than an
      instant stop, so the sign of 0 is not 0: the two-valued sign \<open>x < 0 ? -1 : 1\<close>.
      (In the Still branch the output is 0 because the magnitude is.)\<close>
  "sign x = (if x < 0 then - 1 else 1)"

datatype phase = Still | Dec | Con | Acc

definition dec_distance :: "real \<Rightarrow> real \<Rightarrow> dbl" where
  \<comment> \<open>the locals \<open>delta_t1\<close> (deceleration segment time) and \<open>dec_dist\<close>\<close>
  "dec_distance max_acc vel_mag =
     (let delta_t1 = fdiv vel_mag max_acc
      in fmul (fmul (Finite (0.5 * max_acc)) delta_t1) delta_t1)"

definition reference_phase :: "real \<Rightarrow> real \<Rightarrow> real \<Rightarrow> real \<Rightarrow> real \<Rightarrow> phase" where
  \<comment> \<open>which of the flags \<open>still\<close>, \<open>dec\<close>, \<open>con\<close>, \<open>acc\<close> of
      \<open>determineReference\<close> is set (exactly one is)\<close>
  "reference_phase error_x vel max_vel max_acc dt =
     (let EPS = 0.5 * max_acc * dt;
          vel_mag = \<bar>vel\<bar>;
          dec_dist = dec_distance max_acc vel_mag;
          delta_x = \<bar>error_x\<bar>;
          sign_x = sign vel
      in if vel_mag \<noteq> 0 \<or> delta_x > EPS then
           (if fle (fabs (Finite delta_x)) (fabs dec_dist) then Dec
            else if real_of_int sign_x * error_x < 0 \<and> vel_mag \<noteq> 0 then Dec
            else if flt (fabs dec_dist) (fabs (Finite delta_x)) \<and> vel_mag \<ge> max_vel then Con
            else Acc)
         else Still)"

definition determineReference :: "real \<Rightarrow> real \<Rightarrow> real \<Rightarrow> real \<Rightarrow> real \<Rightarrow> real" where
  "determineReference error_x vel max_vel max_acc dt =
     (let ph = reference_phase error_x vel max_vel max_acc dt;
          vel_mag = \<bar>vel\<bar>;
          error_x' = (if ph = Still then 0 else error_x);
          dir = real_of_int (sign error_x');
          vel_mag' =
            (case ph of
               Acc \<Rightarrow> min (vel_mag + max_acc * dt) max_vel
             | Con \<Rightarrow> vel_mag
             | Dec \<Rightarrow>
                 (let v = max (vel_mag - max_acc * dt) 0
                  in if v < 0.5 * max_acc * dt then 0 else v)
             | Still \<Rightarrow> vel_mag)
      in dir * vel_mag')"


section \<open>Vectors and messages\<close>

text \<open>
  \<open>tf::Vector3\<close> and \<open>geometry_msgs::Vector3\<close> are both triples of doubles; the
  conversions \<open>vector3TFToMsg\<close> and \<open>vector3MsgToTF\<close> copy the three components.
\<close>

datatype vec3 = Vec3 (getX: real) (getY: real) (getZ: real)

definition length3 :: "vec3 \<Rightarrow> real" where
  \<comment> \<open>\<open>tf::Vector3::length\<close>\<close>
  "length3 v = sqrt (getX v * getX v + getY v * getY v + getZ v * getZ v)"

definition smul :: "vec3 \<Rightarrow> real \<Rightarrow> vec3" where
  \<comment> \<open>\<open>v * s\<close>\<close>
  "smul v s = Vec3 (getX v * s) (getY v * s) (getZ v * s)"

definition vadd :: "vec3 \<Rightarrow> vec3 \<Rightarrow> vec3" where
  "vadd a b = Vec3 (getX a + getX b) (getY a + getY b) (getZ a + getZ b)"

definition vsub :: "vec3 \<Rightarrow> vec3 \<Rightarrow> vec3" where
  "vsub a b = Vec3 (getX a - getX b) (getY a - getY b) (getZ a - getZ b)"

definition normalized :: "vec3 \<Rightarrow> vec3 option" where
  \<comment> \<open>\<open>tf::Vector3::normalized\<close> is \<open>*this / length()\<close>, that is \<open>v * (1 / length)\<close>;
      on the zero vector every component is \<open>0 * (1 / 0)\<close>, a NaN: \<open>None\<close>\<close>
  "normalized v = (if length3 v = 0 then None else Some (smul v (1 / length3 v)))"

record Twist =
  twist_linear :: vec3
  twist_angular :: vec3

datatype quaternion = Quaternion real real real real

record PoseStamped =
  frame_id :: string
  position :: vec3
  orientation :: quaternion

record LaserScan =
  scan_frame_id :: string
  angle_min :: real
  angle_increment :: real
  ranges :: "real list"

record Marker =
  \<comment> \<open>of the marker message, the frame and the two points of the line strip; the other
      fields are constants\<close>
  marker_frame_id :: string
  points :: "vec3 list"


section \<open>The planner\<close>

text \<open>
  The members of \<open>CarrotPlanner\<close>, named as in the source without the trailing
  underscore. The two publishers are modelled by the list of the
  messages published so far. The clock \<open>ros::Time::now()\<close> and the yaw extraction
  \<open>tf::getYaw\<close> belong to libraries outside the repository; they are parameters of the
  functions that call them.
\<close>

record CarrotPlanner =
  tracking_frame :: string
  t_last_cmd_vel :: real
  laser_data_available :: bool
  laser_scan :: LaserScan
  goal :: vec3
  goal_angle :: real
  last_cmd_vel :: Twist
  MAX_VEL :: real
  MAX_ACC :: real
  MAX_VEL_THETA :: real
  MAX_ACC_THETA :: real
  GAIN :: real
  MIN_ANGLE :: real
  DISTANCE_VIRTUAL_WALL :: real
  RADIUS_ROBOT :: real
  carrot_pub :: "Marker list"
  cmd_vel_pub :: "Twist list"

datatype fault =
    Unrepresentable   \<comment> \<open>a value converted to \<open>int\<close> that \<open>int\<close> cannot hold\<close>
  | Signed_overflow   \<comment> \<open>\<open>int\<close> arithmetic leaving the range of \<open>int\<close>\<close>
  | Out_of_bounds     \<comment> \<open>\<open>ranges[j]\<close> read outside the vector\<close>
  | Non_finite        \<comment> \<open>a command with a NaN component\<close>

definition publishCarrot :: "vec3 \<Rightarrow> CarrotPlanner \<Rightarrow> CarrotPlanner" where
  "publishCarrot carrot st =
     st\<lparr>carrot_pub := carrot_pub st @
          [\<lparr>marker_frame_id = tracking_frame st,
            points = [Vec3 0 0 0.05, Vec3 (getX carrot) (getY carrot) 0.05]\<rparr>]\<rparr>"

definition setGoal ::
  "(quaternion \<Rightarrow> real) \<Rightarrow> CarrotPlanner \<Rightarrow> PoseStamped \<Rightarrow> bool \<times> CarrotPlanner" where
  "setGoal getYaw st pose =
     (if frame_id pose \<noteq> tracking_frame st then (False, st)
      else
        let st1 = st\<lparr>goal_angle := getYaw (orientation pose)\<rparr>;
            st2 = st1\<lparr>goal := Vec3 (getX (position pose)) (getY (position pose))
                                  (getZ (position pose))\<rparr>;
            st3 = (if \<bar>goal_angle st2\<bar> < MIN_ANGLE st2 then st2\<lparr>goal_angle := 0\<rparr> else st2)
        in (True, publishCarrot (goal st3) st3))"

definition laserScanCallBack :: "CarrotPlanner \<Rightarrow> LaserScan \<Rightarrow> CarrotPlanner" where
  "laserScanCallBack st scan =
     (if scan_frame_id scan = ''/front_laser''
      then st\<lparr>laser_scan := scan, laser_data_available := True\<rparr>
      else st)"

definition setZeroVelocity :: "Twist \<Rightarrow> Twist" where
  "setZeroVelocity cmd_vel = cmd_vel\<lparr>twist_linear := Vec3 0 0 0\<rparr>"


subsection \<open>The virtual wall\<close>

definition atan2 :: "real \<Rightarrow> real \<Rightarrow> real" where
  \<comment> \<open>the C library's \<open>atan2(y, x)\<close>\<close>
  "atan2 y x =
     (if 0 < x then arctan (y / x)
      else if x < 0 then (if 0 \<le> y then arctan (y / x) + pi else arctan (y / x) - pi)
      else if 0 < y then pi / 2
      else if y < 0 then - (pi / 2)
      else 0)"

definition to_int :: "dbl \<Rightarrow> fault + int" where
  \<comment> \<open>\<open>int i = d\<close>: the fractional part is discarded; the behaviour is undefined when
      the truncated value is not an \<open>int\<close>\<close>
  "to_int d =
     (case d of
        Finite r \<Rightarrow> if in_int (trunc r) then Inr (trunc r) else Inl Unrepresentable
      | _ \<Rightarrow> Inl Unrepresentable)"

definition num_readings :: "CarrotPlanner \<Rightarrow> int" where
  "num_readings st = int (length (ranges (laser_scan st)))"

definition index_beam_obst :: "CarrotPlanner \<Rightarrow> fault + int" where
  "index_beam_obst st =
     (if \<not> in_int (num_readings st) then Inl Unrepresentable
      else
        case to_int (fdiv (goal_angle st) (angle_increment (laser_scan st))) of
          Inl e \<Rightarrow> Inl e
        | Inr num_incr \<Rightarrow>
            if in_int (num_readings st div 2 + num_incr)
            then Inr (num_readings st div 2 + num_incr)
            else Inl Signed_overflow)"

definition d_step :: "CarrotPlanner \<Rightarrow> fault + int" where
  "d_step st =
     (let dth = atan2 (RADIUS_ROBOT st) (DISTANCE_VIRTUAL_WALL st)
      in to_int (fdiv dth (angle_increment (laser_scan st))))"

function scan_loop :: "real list \<Rightarrow> real \<Rightarrow> int \<Rightarrow> int \<Rightarrow> fault + bool" where
  "scan_loop rs wall j hi =
     (if j < hi then
        (if j < int (length rs) then
           (if j < 0 then Inl Out_of_bounds
            else
              let dist_to_obstacle = rs ! nat j
              in if dist_to_obstacle > 0.01 \<and> dist_to_obstacle < wall then Inr False
                 else scan_loop rs wall (j + 1) hi)
         else scan_loop rs wall (j + 1) hi)
      else Inr True)"
  by pat_completeness auto
termination
  by (relation "measure (\<lambda>(rs, wall, j, hi). nat (hi - j))") auto

declare scan_loop.simps [simp del]

definition isClearLine :: "CarrotPlanner \<Rightarrow> fault + bool" where
  "isClearLine st =
     (if \<not> laser_data_available st then Inr False
      else
        case index_beam_obst st of
          Inl e \<Rightarrow> Inl e
        | Inr idx \<Rightarrow>
            (case d_step st of
               Inl e \<Rightarrow> Inl e
             | Inr ds \<Rightarrow>
                 if \<not> in_int (idx - ds) \<or> \<not> in_int (idx + ds) then Inl Signed_overflow
                 else scan_loop (ranges (laser_scan st)) (DISTANCE_VIRTUAL_WALL st)
                        (min (idx - ds) 0) (idx + ds)))"


subsection \<open>The velocity command\<close>

definition v_desired_norm :: "CarrotPlanner \<Rightarrow> dbl" where
  "v_desired_norm st =
     (let error_lin_norm = length3 (goal st)
      in if error_lin_norm > 0
         then std_min (Finite (MAX_VEL st))
                (fmul (Finite (GAIN st)) (fsqrt (2 * error_lin_norm * MAX_ACC st)))
         else Finite 0)"

definition vel_desired :: "CarrotPlanner \<Rightarrow> fault + vec3" where
  "vel_desired st =
     (let error_lin = goal st
      in case v_desired_norm st of
           Finite v \<Rightarrow>
             if length3 error_lin > 0
             then (case normalized error_lin of
                     None \<Rightarrow> Inl Non_finite
                   | Some n \<Rightarrow> Inr (smul n v))
             else Inr (smul (Vec3 0 0 0) v)
         | _ \<Rightarrow> Inl Non_finite)"

definition acc_desired :: "real \<Rightarrow> CarrotPlanner \<Rightarrow> vec3 \<Rightarrow> dbl" where
  \<comment> \<open>\<open>vel_diff.length() / dt\<close>, for the desired velocity \<open>vd\<close>\<close>
  "acc_desired dt st vd = fdiv (length3 (vsub vd (twist_linear (last_cmd_vel st)))) dt"

definition determineDesiredVelocity :: "real \<Rightarrow> CarrotPlanner \<Rightarrow> Twist \<Rightarrow> fault + Twist" where
  "determineDesiredVelocity dt st cmd_vel =
     (let error_lin = goal st;
          error_ang = goal_angle st;
          current_vel = last_cmd_vel st;
          current_vel_trans = twist_linear current_vel
      in case vel_desired st of
           Inl e \<Rightarrow> Inl e
         | Inr vd \<Rightarrow>
             (let vel_diff = vsub vd current_vel_trans;
                  lin =
                    (if flt (Finite (MAX_ACC st)) (acc_desired dt st vd) then
                       (case normalized vel_diff of
                          None \<Rightarrow> Inl Non_finite
                        | Some n \<Rightarrow> Inr (vadd current_vel_trans (smul (smul n (MAX_ACC st)) dt)))
                     else if sqrt (getX error_lin * getX error_lin + getY error_lin * getY error_lin)
                             < 1.5
                       then Inr (smul vd 1.0)
                     else Inr vd)
              in case lin of
                   Inl e \<Rightarrow> Inl e
                 | Inr l \<Rightarrow>
                     Inr (cmd_vel\<lparr>twist_linear := l,
                                  twist_angular :=
                                    Vec3 0 0
                                      (determineReference error_ang (getZ (twist_angular current_vel))
                                         (MAX_VEL_THETA st) (MAX_ACC_THETA st) dt)\<rparr>)))"

definition tick_time :: "real \<Rightarrow> nat \<Rightarrow> real" where
  \<comment> \<open>\<open>ros::Time::now().toSec() + ros::Time::now().toNSec() / 1e9\<close>: \<open>now_sec\<close> is the
      value of the first reading of the clock in seconds, \<open>now_nsec\<close> that of the second
      in nanoseconds\<close>
  "tick_time now_sec now_nsec = now_sec + real now_nsec / 1000000000"

definition tick_dt :: "real \<Rightarrow> nat \<Rightarrow> CarrotPlanner \<Rightarrow> real" where
  "tick_dt now_sec now_nsec st =
     (if t_last_cmd_vel st > 0 then tick_time now_sec now_nsec - t_last_cmd_vel st else 0)"

definition computeVelocityCommand ::
  "real \<Rightarrow> nat \<Rightarrow> CarrotPlanner \<Rightarrow> Twist \<Rightarrow> fault + (bool \<times> Twist \<times> CarrotPlanner)" where
  \<comment> \<open>the local \<open>goal_norm\<close> is computed and never used; it is left out\<close>
  "computeVelocityCommand now_sec now_nsec st cmd_vel =
     (let time = tick_time now_sec now_nsec;
          dt = tick_dt now_sec now_nsec st;
          st1 = st\<lparr>t_last_cmd_vel := time\<rparr>
      in case isClearLine st1 of
           Inl e \<Rightarrow> Inl e
         | Inr clear \<Rightarrow>
             (let cmd1 = (if \<not> clear then setZeroVelocity cmd_vel else cmd_vel);
                  st2 = (if \<not> clear then st1\<lparr>goal := Vec3 0 0 0\<rparr> else st1)
              in case determineDesiredVelocity dt st2 cmd1 of
                   Inl e \<Rightarrow> Inl e
                 | Inr cmd2 \<Rightarrow> Inr (True, cmd2, st2\<lparr>last_cmd_vel := cmd2\<rparr>)))"

definition MoveToGoal ::
  "(quaternion \<Rightarrow> real) \<Rightarrow> real \<Rightarrow> nat \<Rightarrow> CarrotPlanner \<Rightarrow> PoseStamped \<Rightarrow>
     fault + (bool \<times> CarrotPlanner)" where
  "MoveToGoal getYaw now_sec now_nsec st pose =
     (let cmd_vel = \<lparr>twist_linear = Vec3 0 0 0, twist_angular = Vec3 0 0 0\<rparr>
      in case setGoal getYaw st pose of
           (False, st1) \<Rightarrow> Inr (False, st1)
         | (True, st1) \<Rightarrow>
             (case computeVelocityCommand now_sec now_nsec st1 cmd_vel of
                Inl e \<Rightarrow> Inl e
              | Inr (ok, cmd, st2) \<Rightarrow>
                  if ok then Inr (True, st2\<lparr>cmd_vel_pub := cmd_vel_pub st2 @ [cmd]\<rparr>)
                  else Inr (False, st2)))"


section \<open>The specification's reading of the virtual-wall check\<close>

text \<open>
  These definitions follow the words of the specification, not the source; the theorems
  below compare them with \<open>isClearLine\<close>.
\<close>

definition spec_indexGoal :: "int \<Rightarrow> real \<Rightarrow> real \<Rightarrow> int" where
  \<comment> \<open>\<open>indexGoal = numReadings/2 + round(goalAngle / angleIncrement)\<close>\<close>
  "spec_indexGoal numReadings goalAngle angleIncrement =
     numReadings div 2 + round (goalAngle / angleIncrement)"

definition spec_halfWidth :: "real \<Rightarrow> real \<Rightarrow> real \<Rightarrow> int" where
  \<comment> \<open>\<open>halfWidth = round(atan2(robotRadius, wallStandoff) / angleIncrement)\<close>\<close>
  "spec_halfWidth robotRadius wallStandoff angleIncrement =
     round (atan2 robotRadius wallStandoff / angleIncrement)"

definition spec_window :: "int \<Rightarrow> int \<Rightarrow> int \<Rightarrow> int set" where
  \<comment> \<open>the window \<open>[indexGoal - halfWidth, indexGoal + halfWidth)\<close> clamped to
      \<open>[0, numReadings)\<close>\<close>
  "spec_window indexGoal halfWidth numReadings =
     {max (indexGoal - halfWidth) 0 ..< min (indexGoal + halfWidth) numReadings}"

definition spec_isPathClear :: "real list \<Rightarrow> real \<Rightarrow> int \<Rightarrow> int \<Rightarrow> bool" where
  \<comment> \<open>false if and only if some reading in the clamped window lies strictly between 0.01
      and the standoff\<close>
  "spec_isPathClear readings wallStandoff indexGoal halfWidth \<longleftrightarrow>
     \<not> (\<exists>i \<in> spec_window indexGoal halfWidth (int (length readings)).
          0.01 < readings ! nat i \<and> readings ! nat i < wallStandoff)"

definition toward_zero :: "real \<Rightarrow> int \<Rightarrow> bool" where
  \<comment> \<open>\<open>k\<close> is \<open>r\<close> with its fractional part discarded\<close>
  "toward_zero r k \<longleftrightarrow>
     (0 \<le> r \<longrightarrow> real_of_int k \<le> r \<and> r < real_of_int k + 1) \<and>
     (r \<le> 0 \<longrightarrow> r \<le> real_of_int k \<and> real_of_int k - 1 < r)"


section \<open>Concrete planner states\<close>

text \<open>
  A planner with the default parameters of the constructor and a front laser of ten beams
  spaced \<open>pi / 8\<close> apart, all reading 1 m; the concrete inputs below are variations of it.
\<close>

definition example_scan :: LaserScan where
  "example_scan =
     \<lparr>scan_frame_id = ''/front_laser'', angle_min = - (5 * pi / 8), angle_increment = pi / 8,
      ranges = [1, 1, 1, 1, 1, 1, 1, 1, 1, 1]\<rparr>"

definition example_planner :: CarrotPlanner where
  "example_planner =
     \<lparr>tracking_frame = ''/base_link'', t_last_cmd_vel = 100, laser_data_available = True,
      laser_scan = example_scan, goal = Vec3 0 0 0, goal_angle = 0,
      last_cmd_vel = \<lparr>twist_linear = Vec3 0 0 0, twist_angular = Vec3 0 0 0\<rparr>,
      MAX_VEL = 0.5, MAX_ACC = 0.15, MAX_VEL_THETA = 0.3, MAX_ACC_THETA = 0.25, GAIN = 0.9,
      MIN_ANGLE = 3.14159 / 14, DISTANCE_VIRTUAL_WALL = 0.5, RADIUS_ROBOT = 0.25,
      carrot_pub = [], cmd_vel_pub = []\<rparr>"

definition example_pose :: "string \<Rightarrow> vec3 \<Rightarrow> PoseStamped" where
  "example_pose f p = \<lparr>frame_id = f, position = p, orientation = Quaternion 0 0 0 1\<rparr>"


definition yaw_about_z :: "quaternion \<Rightarrow> real" where
  \<comment> \<open>the yaw angle of a unit quaternion, a concrete instance of the parameter
      \<open>getYaw\<close>\<close>
  "yaw_about_z q =
     (case q of Quaternion x y z w \<Rightarrow> atan2 (2 * (w * z + x * y)) (1 - 2 * (y * y + z * z)))"

definition side_obstacle_planner :: CarrotPlanner where
  \<comment> \<open>goal straight ahead, an obstacle at 0.3 m on the rightmost beam only\<close>
  "side_obstacle_planner =
     example_planner\<lparr>laser_scan := example_scan\<lparr>ranges := [0.3, 1, 1, 1, 1, 1, 1, 1, 1, 1]\<rparr>\<rparr>"

definition right_goal_planner :: CarrotPlanner where
  \<comment> \<open>goal angle far to the right, no obstacle\<close>
  "right_goal_planner = example_planner\<lparr>goal_angle := - (11 * pi / 16)\<rparr>"

definition offset_goal_planner :: CarrotPlanner where
  \<comment> \<open>goal angle 2.7 beams to the left\<close>
  "offset_goal_planner = example_planner\<lparr>goal_angle := 27 * pi / 80\<rparr>"

definition wide_robot_planner :: CarrotPlanner where
  \<comment> \<open>robot radius equal to the standoff, beams \<open>pi / 11\<close> apart\<close>
  "wide_robot_planner =
     example_planner\<lparr>RADIUS_ROBOT := 0.5,
                     laser_scan := example_scan\<lparr>angle_increment := pi / 11\<rparr>\<rparr>"


definition ahead_goal_planner :: CarrotPlanner where
  \<comment> \<open>goal 2 m straight ahead, clear path, robot at rest, previous tick at time 100\<close>
  "ahead_goal_planner = example_planner\<lparr>goal := Vec3 2 0 0\<rparr>"

definition first_tick_planner :: CarrotPlanner where
  \<comment> \<open>the same with no previous tick time, so that the tick interval is set to 0\<close>
  "first_tick_planner = example_planner\<lparr>goal := Vec3 2 0 0, t_last_cmd_vel := 0\<rparr>"

definition moving_blocked_planner :: CarrotPlanner where
  \<comment> \<open>blocked path, robot moving straight ahead at 0.3 m/s\<close>
  "moving_blocked_planner =
     side_obstacle_planner\<lparr>goal := Vec3 2 0 0,
       last_cmd_vel := \<lparr>twist_linear = Vec3 0.3 0 0, twist_angular = Vec3 0 0 0\<rparr>\<rparr>"


definition cruising_planner :: CarrotPlanner where
  \<comment> \<open>goal 2 m straight ahead, clear path, robot moving straight ahead at 0.49 m/s\<close>
  "cruising_planner =
     example_planner\<lparr>goal := Vec3 2 0 0,
       last_cmd_vel := \<lparr>twist_linear = Vec3 0.49 0 0, twist_angular = Vec3 0 0 0\<rparr>\<rparr>"


section \<open>Properties of the reference generator\<close>

lemma dec_distance_finite:
  "max_acc \<noteq> 0 \<Longrightarrow> dec_distance max_acc v = Finite (v\<^sup>2 / (2 * max_acc))"
  by (simp add: dec_distance_def fdiv_def power2_eq_square)

lemma abs_sign: "\<bar>real_of_int (sign x)\<bar> = 1"
  by (simp add: sign_def)


lemma determineReference_Dec:
  assumes "reference_phase error_x vel max_vel max_acc dt = Dec" "0 < max_acc" "0 < dt"
  shows "determineReference error_x vel max_vel max_acc dt =
         real_of_int (sign error_x) *
           (if \<bar>vel\<bar> - max_acc * dt < 0.5 * max_acc * dt then 0 else \<bar>vel\<bar> - max_acc * dt)"
proof -
  have "0 < max_acc * dt" "0 < dt * max_acc" using assms by simp_all
  then show ?thesis using assms(1)
    by (auto simp: determineReference_def Let_def max_def mult.commute[of max_acc dt])
qed

lemma phase_Acc:
  "reference_phase e v mv ma dt = Acc \<Longrightarrow> 0 < ma \<Longrightarrow> \<bar>v\<bar> < mv"
  by (auto simp: reference_phase_def Let_def dec_distance_finite split: if_splits)

lemma phase_Con: "reference_phase e v mv ma dt = Con \<Longrightarrow> mv \<le> \<bar>v\<bar>"
  by (auto simp: reference_phase_def Let_def split: if_splits)

lemma phase_Still: "reference_phase e v mv ma dt = Still \<Longrightarrow> v = 0"
  by (auto simp: reference_phase_def Let_def split: if_splits)

lemma determineReference_magnitude:
  assumes "0 < max_acc" "0 < dt"
  shows "\<bar>determineReference error_x vel max_vel max_acc dt\<bar> =
           (case reference_phase error_x vel max_vel max_acc dt of
              Acc \<Rightarrow> min (\<bar>vel\<bar> + max_acc * dt) max_vel
            | Con \<Rightarrow> \<bar>vel\<bar>
            | Dec \<Rightarrow> (if \<bar>vel\<bar> - max_acc * dt < 0.5 * max_acc * dt then 0
                      else \<bar>vel\<bar> - max_acc * dt)
            | Still \<Rightarrow> 0)"
proof -
  define k where "k = dt * max_acc"
  have pos: "0 < k" using assms by (simp add: k_def)
  note norm = mult.assoc mult.commute[of max_acc dt] k_def[symmetric]
  show ?thesis
  proof (cases "reference_phase error_x vel max_vel max_acc dt")
    case Still
    then show ?thesis using phase_Still[OF Still] by (simp add: determineReference_def)
  next
    case Dec
    show ?thesis using pos unfolding determineReference_Dec[OF Dec assms] Dec
      by (auto simp: abs_mult abs_sign norm)
  next
    case Con
    then show ?thesis by (simp add: determineReference_def Let_def abs_mult abs_sign)
  next
    case Acc
    have "\<bar>vel\<bar> < max_vel" using phase_Acc[OF Acc assms(1)] .
    then show ?thesis using Acc pos
      by (auto simp: determineReference_def Let_def abs_mult abs_sign min_def norm)
  qed
qed

lemma determineReference_le_max_vel:
  assumes "0 < max_acc" "0 < dt" "\<bar>vel\<bar> \<le> max_vel"
  shows "\<bar>determineReference error_x vel max_vel max_acc dt\<bar> \<le> max_vel"
proof -
  define k where "k = dt * max_acc"
  have pos: "0 < k" using assms by (simp add: k_def)
  note norm = mult.assoc mult.commute[of max_acc dt] k_def[symmetric]
  show ?thesis
    unfolding determineReference_magnitude[OF assms(1,2)]
    using assms(3) pos phase_Con[of error_x vel max_vel max_acc dt]
    by (auto simp: norm split: phase.splits)
qed

lemma determineReference_magnitude_step:
  assumes "0 < max_acc" "0 < dt"
  shows "\<bar>\<bar>determineReference error_x vel max_vel max_acc dt\<bar> - \<bar>vel\<bar>\<bar> \<le> max_acc * dt \<or>
         (determineReference error_x vel max_vel max_acc dt = 0 \<and>
          \<bar>vel\<bar> < 1.5 * max_acc * dt)"
proof -
  define k where "k = dt * max_acc"
  have pos: "0 < k" using assms by (simp add: k_def)
  note norm = mult.assoc mult.commute[of max_acc dt] k_def[symmetric]
  have z: "determineReference error_x vel max_vel max_acc dt = 0 \<longleftrightarrow>
           \<bar>determineReference error_x vel max_vel max_acc dt\<bar> = 0" by simp
  show ?thesis
    unfolding z determineReference_magnitude[OF assms(1,2)]
    using pos phase_Acc[of error_x vel max_vel max_acc dt]
      phase_Still[of error_x vel max_vel max_acc dt] assms(1)
    by (auto simp: norm min_def split: phase.splits)
qed

lemma determineReference_direction:
  assumes "vel = 0 \<or> sign vel = sign error_x" "0 < max_acc" "0 < dt"
  shows "\<bar>determineReference error_x vel max_vel max_acc dt - vel\<bar> =
         \<bar>\<bar>determineReference error_x vel max_vel max_acc dt\<bar> - \<bar>vel\<bar>\<bar>"
proof (cases "vel = 0")
  case True
  then show ?thesis by simp
next
  case False
  with assms(1) have s: "sign vel = sign error_x" by simp
  have ns: "reference_phase error_x vel max_vel max_acc dt \<noteq> Still"
    using phase_Still False by blast
  have v: "vel = real_of_int (sign error_x) * \<bar>vel\<bar>"
    unfolding s[symmetric] by (simp add: sign_def)
  define m where "m = (case reference_phase error_x vel max_vel max_acc dt of
               Acc \<Rightarrow> min (\<bar>vel\<bar> + max_acc * dt) max_vel
             | Con \<Rightarrow> \<bar>vel\<bar>
             | Dec \<Rightarrow>
                 (let v = max (\<bar>vel\<bar> - max_acc * dt) 0
                  in if v < 0.5 * max_acc * dt then 0 else v)
             | Still \<Rightarrow> \<bar>vel\<bar>)"
  have m: "determineReference error_x vel max_vel max_acc dt = real_of_int (sign error_x) * m"
    using ns by (simp add: determineReference_def Let_def m_def)
  have am: "\<bar>determineReference error_x vel max_vel max_acc dt\<bar> = \<bar>m\<bar>"
    by (simp add: m abs_mult abs_sign)
  have pos: "0 \<le> m"
  proof -
    define k where "k = dt * max_acc"
    have kpos: "0 < k" using assms by (simp add: k_def)
    note norm = mult.assoc mult.commute[of max_acc dt] k_def[symmetric]
    show ?thesis
      unfolding m_def
      using kpos phase_Acc[of error_x vel max_vel max_acc dt] assms(2)
      by (auto simp: norm Let_def min_def max_def split: phase.splits if_splits)
  qed
  have "determineReference error_x vel max_vel max_acc dt - vel =
        real_of_int (sign error_x) * (m - \<bar>vel\<bar>)"
    using m v by (simp add: algebra_simps)
  then have "\<bar>determineReference error_x vel max_vel max_acc dt - vel\<bar> = \<bar>m - \<bar>vel\<bar>\<bar>"
    by (simp add: abs_mult abs_sign)
  with am pos show ?thesis by simp
qed

text \<open>
  C2, as stated: for all positive \<open>maxVel\<close>, \<open>maxAcc\<close>, \<open>dt\<close> the output magnitude is at
  most \<open>maxVel\<close> and the output differs from the previous velocity by at most
  \<open>maxAcc * dt\<close>. Four calls show that it fails: a previous velocity above \<open>maxVel\<close>
  is passed through by the constant branch; a previous velocity against the direction of
  the error is answered with a velocity in the direction of the error; the decelerate
  branch snaps a magnitude below \<open>1.5 * maxAcc * dt\<close> to zero in one step; and a
  negative previous velocity with zero error is answered with a positive velocity (the
  last call alone depends on the sign of 0).
\<close>

theorem determineReference_bounds_counterexample:
  "(0::real) < 0.3 \<and> (0::real) < 0.25 \<and> (0::real) < 0.1 \<and>
   \<not> \<bar>determineReference 100 1 0.3 0.25 0.1\<bar> \<le> 0.3 \<and>
   \<not> \<bar>determineReference 1 (- 0.3) 0.3 0.25 0.1 - (- 0.3)\<bar> \<le> 0.25 * 0.1 \<and>
   \<not> \<bar>determineReference 0.001 0.03 0.3 0.25 0.1 - 0.03\<bar> \<le> 0.25 * 0.1 \<and>
   \<not> \<bar>determineReference 0 (- 0.3) 0.3 0.25 0.1 - (- 0.3)\<bar> \<le> 0.25 * 0.1"
  by (simp add: determineReference_def reference_phase_def dec_distance_def fdiv_def
      sign_def Let_def)

text \<open>
  C2, amended: for every call with \<open>maxAcc > 0\<close> and \<open>dt > 0\<close> (and any \<open>maxVel\<close>):
  if the previous velocity has magnitude at most \<open>maxVel\<close>, the output magnitude is at
  most \<open>maxVel\<close>; the magnitude of the output differs from the magnitude of the previous
  velocity by at most \<open>maxAcc * dt\<close>, except where the decelerate branch snaps to zero:
  then the output is 0 and the previous magnitude was below \<open>1.5 * maxAcc * dt\<close>; and if
  the previous velocity is zero or has the sign of the error, the same holds of the
  difference between the output and the previous velocity.
\<close>

theorem determineReference_bounds:
  assumes "0 < max_acc" "0 < dt"
  shows "(\<bar>vel\<bar> \<le> max_vel \<longrightarrow>
            \<bar>determineReference error_x vel max_vel max_acc dt\<bar> \<le> max_vel) \<and>
         (\<bar>\<bar>determineReference error_x vel max_vel max_acc dt\<bar> - \<bar>vel\<bar>\<bar> \<le> max_acc * dt \<or>
          (determineReference error_x vel max_vel max_acc dt = 0 \<and>
           \<bar>vel\<bar> < 1.5 * max_acc * dt)) \<and>
         (vel = 0 \<or> sign vel = sign error_x \<longrightarrow>
            \<bar>determineReference error_x vel max_vel max_acc dt - vel\<bar> \<le> max_acc * dt \<or>
            (determineReference error_x vel max_vel max_acc dt = 0 \<and>
             \<bar>vel\<bar> < 1.5 * max_acc * dt))"
  using determineReference_le_max_vel[OF assms] determineReference_magnitude_step[OF assms]
    determineReference_direction[OF _ assms]
  by metis

theorem determineReference_bounds_witness:
  "(0::real) < 0.25 \<and> (0::real) < 0.1 \<and> \<bar>0.1 :: real\<bar> \<le> 0.3 \<and> sign 0.1 = sign 0 \<and>
   \<bar>determineReference 0 0.1 0.3 0.25 0.1\<bar> \<le> 0.3 \<and>
   determineReference 0 0.1 0.3 0.25 0.1 = 0.075 \<and>
   \<bar>determineReference 0 0.1 0.3 0.25 0.1 - 0.1\<bar> \<le> 0.25 * 0.1 \<and>
   sign 0.1 = sign 1 \<and>
   determineReference 1 0.1 0.3 0.25 0.1 = 0.125 \<and>
   \<bar>determineReference 1 0.1 0.3 0.25 0.1 - 0.1\<bar> \<le> 0.25 * 0.1"
  using determineReference_bounds [of "0.25" "0.1" "0.1" "0.3" "0"]
    determineReference_bounds [of "0.25" "0.1" "0.1" "0.3" "1"]
  by (simp add: determineReference_def reference_phase_def dec_distance_def fdiv_def
      sign_def Let_def)




section \<open>Properties of the virtual-wall check\<close>

lemma arctan_half_bounds: "pi / 8 < arctan (1 / 2)" "arctan (1 / 2) < pi / 4"
proof -
  have "2 * arctan (1 / 2) = arctan ((2 * (1 / 2)) / (1 - (1 / 2)\<^sup>2))"
    by (rule arctan_double) simp
  also have "\<dots> = arctan (4 / 3)" by (simp add: power2_eq_square)
  finally have d: "2 * arctan (1 / 2) = arctan (4 / 3)" .
  have "arctan 1 < arctan (4 / 3)" by (simp add: arctan_less_iff)
  with d show "pi / 8 < arctan (1 / 2)" by (simp add: arctan_one)
  have "arctan (1 / 2) < arctan 1" by (simp add: arctan_less_iff)
  then show "arctan (1 / 2) < pi / 4" by (simp add: arctan_one)
qed

lemma trunc_eqI:
  "real_of_int k \<le> r \<Longrightarrow> r < real_of_int k + 1 \<Longrightarrow> 0 \<le> r \<Longrightarrow> trunc r = k"
  by (simp add: trunc_def floor_unique)

lemma trunc_neg_eqI:
  "real_of_int k - 1 < r \<Longrightarrow> r \<le> real_of_int k \<Longrightarrow> r < 0 \<Longrightarrow> trunc r = k"
  by (simp add: trunc_def ceiling_unique)

lemma trunc_toward_zero: "toward_zero r (trunc r)"
  by (auto simp: toward_zero_def trunc_def) linarith+

lemma trunc_round: "\<bar>trunc r - round r\<bar> \<le> 1"
  by (auto simp: trunc_def round_def) linarith+

lemma to_int_Finite: "in_int (trunc r) \<Longrightarrow> to_int (Finite r) = Inr (trunc r)"
  by (simp add: to_int_def)

lemma to_int_Inr: "to_int d = Inr k \<Longrightarrow> \<exists>r. d = Finite r \<and> k = trunc r"
  by (auto simp: to_int_def split: dbl.splits if_splits)

lemma fdiv_Finite: "fdiv x y = Finite r \<Longrightarrow> y \<noteq> 0 \<and> r = x / y"
  by (auto simp: fdiv_def split: if_splits)

lemma in_int_small: "\<bar>i\<bar> \<le> 1000 \<Longrightarrow> in_int i"
  by (auto simp: in_int_def INT_MIN_def INT_MAX_def)

lemma scan_loop_nonneg:
  "0 \<le> j \<Longrightarrow>
   scan_loop rs wall j hi =
     Inr (\<not> (\<exists>i \<in> {j ..< min hi (int (length rs))}. 0.01 < rs ! nat i \<and> rs ! nat i < wall))"
proof (induction rs wall j hi rule: scan_loop.induct)
  case (1 rs wall j hi)
  show ?case
  proof (cases "j < hi")
    case False
    then show ?thesis by (subst scan_loop.simps) auto
  next
    case True
    show ?thesis
    proof (cases "j < int (length rs)")
      case False
      with True 1 show ?thesis
        by (subst scan_loop.simps) auto
    next
      case lt: True
      have split: "{j ..< min hi (int (length rs))} =
                   insert j {j + 1 ..< min hi (int (length rs))}"
        using True lt by auto
      show ?thesis
      proof (cases "0.01 < rs ! nat j \<and> rs ! nat j < wall")
        case True
        with \<open>j < hi\<close> lt 1(3) show ?thesis
          by (subst scan_loop.simps) (auto simp: split)
      next
        case False
        with \<open>j < hi\<close> lt 1(3) have "scan_loop rs wall j hi = scan_loop rs wall (j + 1) hi"
          by (subst scan_loop.simps) (auto simp: Let_def)
        also have "\<dots> =
            Inr (\<not> (\<exists>i \<in> {j + 1 ..< min hi (int (length rs))}.
                       0.01 < rs ! nat i \<and> rs ! nat i < wall))"
          using 1(1)[OF \<open>j < hi\<close> lt _ refl] 1(3) False by auto
        finally show ?thesis using False by (auto simp: split)
      qed
    qed
  qed
qed

lemma scan_loop_negative:
  "j < 0 \<Longrightarrow> j < hi \<Longrightarrow> scan_loop rs wall j hi = Inl Out_of_bounds"
  by (subst scan_loop.simps) auto

text \<open>
  What the loop of \<open>isClearLine\<close> examines: the beams from 0 (not from the lower end of
  the window) up to the upper end of the window, and a beam of negative index first when
  the window starts below 0.
\<close>

lemma isClearLine_examines:
  assumes "laser_data_available st" "index_beam_obst st = Inr idx" "d_step st = Inr ds"
    and "in_int (idx - ds)" "in_int (idx + ds)"
  shows "isClearLine st =
           (if idx - ds < 0 \<and> idx - ds < idx + ds then Inl Out_of_bounds
            else Inr (\<not> (\<exists>i \<in> {0 ..< min (idx + ds) (num_readings st)}.
                           0.01 < ranges (laser_scan st) ! nat i \<and>
                           ranges (laser_scan st) ! nat i < DISTANCE_VIRTUAL_WALL st)))"
proof (cases "idx - ds < 0")
  case True
  then have m: "min (idx - ds) 0 = idx - ds" by simp
  show ?thesis
  proof (cases "idx - ds < idx + ds")
    case lt: True
    with True show ?thesis
      using assms by (simp add: isClearLine_def m scan_loop_negative)
  next
    case False
    with True have e: "{0 ..< min (idx + ds) (num_readings st)} = {}" by auto
    from False have "scan_loop (ranges (laser_scan st)) (DISTANCE_VIRTUAL_WALL st)
                       (idx - ds) (idx + ds) = Inr True"
      by (subst scan_loop.simps) simp
    with False show ?thesis
      using assms by (simp add: isClearLine_def m e)
  qed
next
  case False
  then have m: "min (idx - ds) 0 = 0" by simp
  from False show ?thesis
    using assms by (simp add: isClearLine_def m scan_loop_nonneg num_readings_def)
qed

lemma d_step_default:
  assumes "RADIUS_ROBOT st = 0.25" "DISTANCE_VIRTUAL_WALL st = 0.5"
    and "angle_increment (laser_scan st) = pi / 8"
  shows "d_step st = Inr 1"
proof -
  have a: "atan2 (RADIUS_ROBOT st) (DISTANCE_VIRTUAL_WALL st) = arctan (1 / 2)"
    unfolding assms by (simp add: atan2_def)
  have "trunc (arctan (1 / 2) / (pi / 8)) = 1"
    using arctan_half_bounds by (intro trunc_eqI) (simp_all add: field_simps)
  then have t: "trunc (arctan (1 / 2) * 8 / pi) = 1" by simp
  show ?thesis
    unfolding d_step_def a Let_def assms(3)
    by (simp add: fdiv_def to_int_def t in_int_def INT_MIN_def INT_MAX_def)
qed

lemma index_beam_obst_ahead:
  assumes "goal_angle st = 0" "angle_increment (laser_scan st) = pi / 8"
    and "length (ranges (laser_scan st)) = 10"
  shows "index_beam_obst st = Inr 5"
  unfolding index_beam_obst_def num_readings_def assms
  by (simp add: fdiv_def to_int_def trunc_def in_int_def INT_MIN_def INT_MAX_def)

lemma isClearLine_example: "isClearLine example_planner = Inr True"
proof -
  have d: "d_step example_planner = Inr 1"
    by (rule d_step_default) (simp_all add: example_planner_def example_scan_def)
  have i: "index_beam_obst example_planner = Inr 5"
    by (rule index_beam_obst_ahead) (simp_all add: example_planner_def example_scan_def)
  show ?thesis
    unfolding isClearLine_def d i
    by (simp add: example_planner_def example_scan_def in_int_small scan_loop.simps)
qed

lemma d_step_side_obstacle: "d_step side_obstacle_planner = Inr 1"
  by (rule d_step_default)
    (simp_all add: side_obstacle_planner_def example_planner_def example_scan_def)

lemma index_beam_obst_side_obstacle: "index_beam_obst side_obstacle_planner = Inr 5"
  by (rule index_beam_obst_ahead)
    (simp_all add: side_obstacle_planner_def example_planner_def example_scan_def)

lemma isClearLine_side_obstacle: "isClearLine side_obstacle_planner = Inr False"
  unfolding isClearLine_def d_step_side_obstacle index_beam_obst_side_obstacle
  by (simp add: side_obstacle_planner_def example_planner_def example_scan_def in_int_small
      scan_loop.simps)

lemma spec_isPathClear_side_obstacle:
  "spec_isPathClear (ranges (laser_scan side_obstacle_planner))
     (DISTANCE_VIRTUAL_WALL side_obstacle_planner) 5 1"
proof -
  have w: "{4..<6} = {4, 5 :: int}" by auto
  show ?thesis
    by (simp add: spec_isPathClear_def spec_window_def side_obstacle_planner_def
        example_planner_def example_scan_def w)
qed

lemma isClearLine_right_goal: "isClearLine right_goal_planner = Inl Out_of_bounds"
proof -
  have d: "d_step right_goal_planner = Inr 1"
    by (rule d_step_default)
      (simp_all add: right_goal_planner_def example_planner_def example_scan_def)
  have t: "trunc (- (11 / 2)) = - 5" by (intro trunc_neg_eqI) simp_all
  have q: "fdiv (- (11 * pi / 16)) (pi / 8) = Finite (- (11 / 2))" by (simp add: fdiv_def)
  have i: "index_beam_obst right_goal_planner = Inr 0"
    by (simp add: index_beam_obst_def num_readings_def right_goal_planner_def
        example_planner_def example_scan_def q to_int_Finite t in_int_small)
  show ?thesis
    unfolding isClearLine_def d i
    by (simp add: right_goal_planner_def example_planner_def example_scan_def in_int_small
        scan_loop.simps)
qed

text \<open>
  C1. The claim: with a scan accepted, the check examines exactly the window
  \<open>[indexGoal - halfWidth, indexGoal + halfWidth)\<close> clamped to \<open>[0, numReadings)\<close>,
  returns false if and only if a reading in that window lies strictly between 0.01 and the
  standoff, and never reads outside the readings. The loop of \<open>isClearLine\<close> starts at
  \<open>std::min(index_beam_obst - d_step, 0)\<close>, the smaller of the window's lower end and 0.
  With the goal straight ahead (window \<open>[4, 6)\<close> of ten beams) and an obstacle on beam 0
  only, the window of the claim is clear and the code reports a blocked path; with the
  goal far to the right the window starts at beam -1 and the code reads \<open>ranges[-1]\<close>.
\<close>

theorem isClearLine_window_divergence:
  "laserScanCallBack example_planner (example_scan\<lparr>ranges := [0.3, 1, 1, 1, 1, 1, 1, 1, 1, 1]\<rparr>)
     = side_obstacle_planner \<and>
   laser_data_available side_obstacle_planner \<and>
   index_beam_obst side_obstacle_planner = Inr 5 \<and>
   d_step side_obstacle_planner = Inr 1 \<and>
   spec_isPathClear (ranges (laser_scan side_obstacle_planner))
     (DISTANCE_VIRTUAL_WALL side_obstacle_planner) 5 1 \<and>
   isClearLine side_obstacle_planner = Inr False \<and>
   laser_data_available right_goal_planner \<and>
   isClearLine right_goal_planner = Inl Out_of_bounds"
  using index_beam_obst_side_obstacle d_step_side_obstacle spec_isPathClear_side_obstacle
    isClearLine_side_obstacle isClearLine_right_goal
  by (simp add: side_obstacle_planner_def right_goal_planner_def example_planner_def
      laserScanCallBack_def example_scan_def)

theorem isClearLine_window_divergence_witness:
  "spec_window 5 1 (num_readings side_obstacle_planner) = {4, 5} \<and>
   ranges (laser_scan side_obstacle_planner) ! nat 4 = 1 \<and>
   ranges (laser_scan side_obstacle_planner) ! nat 5 = 1 \<and>
   ranges (laser_scan side_obstacle_planner) ! nat 0 = 0.3 \<and>
   spec_isPathClear (ranges (laser_scan side_obstacle_planner))
     (DISTANCE_VIRTUAL_WALL side_obstacle_planner) 5 1 \<and>
   isClearLine side_obstacle_planner = Inr False"
proof -
  have w: "{4..<6} = {4, 5 :: int}" by auto
  show ?thesis
    using isClearLine_window_divergence
    by (simp add: spec_window_def num_readings_def side_obstacle_planner_def
        example_planner_def example_scan_def w)
qed

lemma index_beam_obst_offset_goal: "index_beam_obst offset_goal_planner = Inr 7"
proof -
  have t: "trunc (27 / 10) = 2" by (intro trunc_eqI) simp_all
  have q: "fdiv (27 * pi / 80) (pi / 8) = Finite (27 / 10)" by (simp add: fdiv_def)
  show ?thesis
    by (simp add: index_beam_obst_def num_readings_def offset_goal_planner_def
        example_planner_def example_scan_def q to_int_Finite t in_int_small)
qed

lemma spec_indexGoal_offset_goal:
  "spec_indexGoal (num_readings offset_goal_planner) (goal_angle offset_goal_planner)
     (angle_increment (laser_scan offset_goal_planner)) = 8"
proof -
  have r: "round (27 / 10 :: real) = 3" by (simp add: round_def)
  have "spec_indexGoal (num_readings offset_goal_planner) (goal_angle offset_goal_planner)
     (angle_increment (laser_scan offset_goal_planner)) = 5 + round ((27 * pi / 80) / (pi / 8))"
    by (simp add: spec_indexGoal_def num_readings_def offset_goal_planner_def
        example_planner_def example_scan_def)
  also have "\<dots> = 5 + round (27 / 10 :: real)" by simp
  finally show ?thesis using r by simp
qed

lemma d_step_wide_robot: "d_step wide_robot_planner = Inr 2"
proof -
  have a: "atan2 (1 / 2) (1 / 2) = pi / 4" by (simp add: atan2_def arctan_one)
  have t: "trunc (11 / 4) = 2" by (intro trunc_eqI) simp_all
  have q: "fdiv (pi / 4) (pi / 11) = Finite (11 / 4)" by (simp add: fdiv_def)
  have "d_step wide_robot_planner = to_int (fdiv (atan2 0.5 0.5) (pi / 11))"
    by (simp add: d_step_def wide_robot_planner_def example_planner_def example_scan_def)
  then show ?thesis by (simp add: a q to_int_Finite t in_int_small)
qed

lemma spec_halfWidth_wide_robot:
  "spec_halfWidth (RADIUS_ROBOT wide_robot_planner) (DISTANCE_VIRTUAL_WALL wide_robot_planner)
     (angle_increment (laser_scan wide_robot_planner)) = 3"
proof -
  have a: "atan2 0.5 0.5 = pi / 4" by (simp add: atan2_def arctan_one)
  have r: "round (11 / 4 :: real) = 3" by (simp add: round_def)
  have "spec_halfWidth (RADIUS_ROBOT wide_robot_planner)
          (DISTANCE_VIRTUAL_WALL wide_robot_planner)
          (angle_increment (laser_scan wide_robot_planner)) =
        round (atan2 0.5 0.5 / (pi / 11))"
    by (simp add: spec_halfWidth_def wide_robot_planner_def example_planner_def
        example_scan_def)
  also have "\<dots> = round (11 / 4 :: real)" unfolding a by simp
  finally show ?thesis using r by simp
qed

text \<open>
  C8, as stated: both conversions from a real quotient to an index round to the nearest
  integer. For a goal angle of 2.7 beams the code aims at beam \<open>5 + 2\<close>, the formula of
  the claim at beam \<open>5 + 3\<close>; for a half-width of 2.75 beams the code takes 2, the
  formula 3.
\<close>

theorem index_conversions_round_counterexample:
  "index_beam_obst offset_goal_planner = Inr 7 \<and>
   spec_indexGoal (num_readings offset_goal_planner) (goal_angle offset_goal_planner)
     (angle_increment (laser_scan offset_goal_planner)) = 8 \<and>
   d_step wide_robot_planner = Inr 2 \<and>
   spec_halfWidth (RADIUS_ROBOT wide_robot_planner) (DISTANCE_VIRTUAL_WALL wide_robot_planner)
     (angle_increment (laser_scan wide_robot_planner)) = 3"
  using index_beam_obst_offset_goal spec_indexGoal_offset_goal d_step_wide_robot
    spec_halfWidth_wide_robot
  by simp

text \<open>
  C8, amended: whenever the index aimed at the goal is computed, it is \<open>numReadings / 2\<close>
  plus the quotient \<open>goalAngle / angleIncrement\<close> with its fractional part discarded
  (truncation toward zero), and whenever the half-width is computed it is
  \<open>atan2(robotRadius, wallStandoff) / angleIncrement\<close> with its fractional part
  discarded; each is within 1 of the rounded value.
\<close>

theorem index_conversions_truncate:
  "(index_beam_obst st = Inr idx \<longrightarrow>
      toward_zero (goal_angle st / angle_increment (laser_scan st))
        (idx - num_readings st div 2) \<and>
      \<bar>idx - spec_indexGoal (num_readings st) (goal_angle st)
               (angle_increment (laser_scan st))\<bar> \<le> 1) \<and>
   (d_step st = Inr ds \<longrightarrow>
      toward_zero
        (atan2 (RADIUS_ROBOT st) (DISTANCE_VIRTUAL_WALL st) / angle_increment (laser_scan st))
        ds \<and>
      \<bar>ds - spec_halfWidth (RADIUS_ROBOT st) (DISTANCE_VIRTUAL_WALL st)
              (angle_increment (laser_scan st))\<bar> \<le> 1)"
proof (intro conjI impI)
  assume a: "index_beam_obst st = Inr idx"
  then obtain k where k: "to_int (fdiv (goal_angle st) (angle_increment (laser_scan st))) = Inr k"
    and i: "idx = num_readings st div 2 + k"
    by (auto simp: index_beam_obst_def split: if_splits sum.splits)
  from to_int_Inr[OF k] fdiv_Finite
  have kt: "k = trunc (goal_angle st / angle_increment (laser_scan st))" by blast
  show "toward_zero (goal_angle st / angle_increment (laser_scan st))
          (idx - num_readings st div 2)"
    using trunc_toward_zero by (simp add: i kt)
  show "\<bar>idx - spec_indexGoal (num_readings st) (goal_angle st)
                 (angle_increment (laser_scan st))\<bar> \<le> 1"
    using trunc_round[of "goal_angle st / angle_increment (laser_scan st)"]
    by (simp add: i kt spec_indexGoal_def)
next
  assume a: "d_step st = Inr ds"
  from to_int_Inr[OF a[unfolded d_step_def Let_def]] fdiv_Finite
  have kt: "ds = trunc (atan2 (RADIUS_ROBOT st) (DISTANCE_VIRTUAL_WALL st) /
                        angle_increment (laser_scan st))"
    by blast
  show "toward_zero
          (atan2 (RADIUS_ROBOT st) (DISTANCE_VIRTUAL_WALL st) / angle_increment (laser_scan st))
          ds"
    using trunc_toward_zero by (simp add: kt)
  show "\<bar>ds - spec_halfWidth (RADIUS_ROBOT st) (DISTANCE_VIRTUAL_WALL st)
                (angle_increment (laser_scan st))\<bar> \<le> 1"
    using trunc_round[of "atan2 (RADIUS_ROBOT st) (DISTANCE_VIRTUAL_WALL st) /
                          angle_increment (laser_scan st)"]
    by (simp add: kt spec_halfWidth_def)
qed

theorem index_conversions_truncate_witness:
  "index_beam_obst offset_goal_planner = Inr 7 \<and>
   toward_zero (goal_angle offset_goal_planner / angle_increment (laser_scan offset_goal_planner))
     (7 - num_readings offset_goal_planner div 2) \<and>
   d_step wide_robot_planner = Inr 2 \<and>
   toward_zero
     (atan2 (RADIUS_ROBOT wide_robot_planner) (DISTANCE_VIRTUAL_WALL wide_robot_planner) /
      angle_increment (laser_scan wide_robot_planner)) 2"
  using index_conversions_truncate [of offset_goal_planner 7 2]
    index_conversions_truncate [of wide_robot_planner 7 2]
    index_beam_obst_offset_goal d_step_wide_robot
  by simp


section \<open>Properties of goal setting\<close>

text \<open>
  C9. For a pose whose frame identifier differs from the tracking frame, \<open>setGoal\<close>
  returns false and leaves the planner as it was: the goal, the goal angle and the list of
  published markers are unchanged.
\<close>

theorem setGoal_frame_mismatch:
  assumes "frame_id pose \<noteq> tracking_frame st"
  shows "setGoal getYaw st pose = (False, st) \<and>
         goal (snd (setGoal getYaw st pose)) = goal st \<and>
         goal_angle (snd (setGoal getYaw st pose)) = goal_angle st \<and>
         carrot_pub (snd (setGoal getYaw st pose)) = carrot_pub st"
  using assms by (simp add: setGoal_def)

theorem setGoal_frame_mismatch_witness:
  "frame_id (example_pose ''/map'' (Vec3 1 2 0)) \<noteq> tracking_frame example_planner \<and>
   setGoal yaw_about_z example_planner (example_pose ''/map'' (Vec3 1 2 0)) =
     (False, example_planner)"
  using setGoal_frame_mismatch [of "example_pose ''/map'' (Vec3 1 2 0)" example_planner
      yaw_about_z]
  by (simp add: example_pose_def example_planner_def)

text \<open>
  C10. For a pose whose frame identifier equals the tracking frame, \<open>setGoal\<close> returns
  true, the stored goal is the position of the pose, and the stored goal angle is the yaw
  of the orientation, or exactly 0 when the magnitude of the yaw is below \<open>MIN_ANGLE\<close>.
  Apart from the marker appended to the published markers, nothing else changes.
\<close>

theorem setGoal_accepts:
  assumes "frame_id pose = tracking_frame st"
  shows "fst (setGoal getYaw st pose) = True \<and>
         goal (snd (setGoal getYaw st pose)) = position pose \<and>
         goal_angle (snd (setGoal getYaw st pose)) =
           (if \<bar>getYaw (orientation pose)\<bar> < MIN_ANGLE st then 0
            else getYaw (orientation pose)) \<and>
         snd (setGoal getYaw st pose) =
           st\<lparr>goal := position pose,
              goal_angle :=
                (if \<bar>getYaw (orientation pose)\<bar> < MIN_ANGLE st then 0
                 else getYaw (orientation pose)),
              carrot_pub := carrot_pub st @
                [\<lparr>marker_frame_id = tracking_frame st,
                  points = [Vec3 0 0 0.05,
                            Vec3 (getX (position pose)) (getY (position pose)) 0.05]\<rparr>]\<rparr>"
  using assms by (simp add: setGoal_def Let_def publishCarrot_def)

theorem setGoal_accepts_witness:
  "frame_id (example_pose ''/base_link'' (Vec3 1 2 0)) = tracking_frame example_planner \<and>
   fst (setGoal yaw_about_z example_planner (example_pose ''/base_link'' (Vec3 1 2 0))) \<and>
   goal (snd (setGoal yaw_about_z example_planner (example_pose ''/base_link'' (Vec3 1 2 0))))
     = Vec3 1 2 0 \<and>
   goal_angle (snd (setGoal yaw_about_z example_planner
       (example_pose ''/base_link'' (Vec3 1 2 0)))) = 0 \<and>
   goal_angle (snd (setGoal yaw_about_z example_planner
       ((example_pose ''/base_link'' (Vec3 1 2 0))\<lparr>orientation := Quaternion 0 0 1 0\<rparr>))) = pi"
proof -
  have big: "\<not> pi * 14 < 3.14159"
    using pi_ge_two by simp
  show ?thesis
    using setGoal_accepts [of "example_pose ''/base_link'' (Vec3 1 2 0)" example_planner
        yaw_about_z]
      setGoal_accepts [of "(example_pose ''/base_link'' (Vec3 1 2 0))
          \<lparr>orientation := Quaternion 0 0 1 0\<rparr>" example_planner yaw_about_z]
      big
    by (simp add: example_pose_def example_planner_def yaw_about_z_def atan2_def)
qed

section \<open>Properties of the velocity command\<close>

lemma length3_nonneg: "0 \<le> length3 v"
  by (simp add: length3_def)

lemma length3_eq_0_iff: "length3 v = 0 \<longleftrightarrow> v = Vec3 0 0 0"
proof (cases v)
  case (Vec3 x y z)
  have "x * x + y * y + z * z = 0 \<longleftrightarrow> x = 0 \<and> y = 0 \<and> z = 0"
    using sum_power2_eq_zero_iff[of x y] sum_power2_eq_zero_iff[of "sqrt (x\<^sup>2 + y\<^sup>2)" z]
    by (auto simp: power2_eq_square add_nonneg_eq_0_iff)
  then show ?thesis using Vec3 by (simp add: length3_def)
qed

lemma length3_smul: "length3 (smul v c) = \<bar>c\<bar> * length3 v"
proof -
  have "getX v * c * (getX v * c) + getY v * c * (getY v * c) + getZ v * c * (getZ v * c)
        = c\<^sup>2 * (getX v * getX v + getY v * getY v + getZ v * getZ v)"
    by (simp add: power2_eq_square algebra_simps)
  then show ?thesis
    by (simp add: length3_def smul_def real_sqrt_mult)
qed

lemma length3_vsub_zero: "length3 (vsub (Vec3 0 0 0) v) = length3 v"
  by (simp add: length3_def vsub_def)

lemma v_desired_norm_Finite:
  "v_desired_norm st =
     Finite (if 0 < length3 (goal st)
             then (if 2 * length3 (goal st) * MAX_ACC st < 0 then MAX_VEL st
                   else min (MAX_VEL st) (GAIN st * sqrt (2 * length3 (goal st) * MAX_ACC st)))
             else 0)"
  by (auto simp: v_desired_norm_def Let_def fsqrt_def std_min_def min_def)

lemma vel_desired_Inr: "\<exists>vd. vel_desired st = Inr vd"
  by (auto simp: vel_desired_def v_desired_norm_Finite Let_def normalized_def)

lemma vel_desired_zero_goal: "goal st = Vec3 0 0 0 \<Longrightarrow> vel_desired st = Inr (Vec3 0 0 0)"
  by (simp add: vel_desired_def v_desired_norm_Finite Let_def length3_def smul_def)

lemma num_readings_t_last: "num_readings (st\<lparr>t_last_cmd_vel := t\<rparr>) = num_readings st"
  by (simp add: num_readings_def)

lemma index_beam_obst_t_last:
  "index_beam_obst (st\<lparr>t_last_cmd_vel := t\<rparr>) = index_beam_obst st"
  by (simp add: index_beam_obst_def num_readings_t_last split: sum.splits)

lemma d_step_t_last: "d_step (st\<lparr>t_last_cmd_vel := t\<rparr>) = d_step st"
  by (simp add: d_step_def)

lemma isClearLine_t_last: "isClearLine (st\<lparr>t_last_cmd_vel := t\<rparr>) = isClearLine st"
  by (simp add: isClearLine_def index_beam_obst_t_last d_step_t_last split: sum.splits)

lemma vsub_eq_zero: "vsub a b = Vec3 0 0 0 \<longleftrightarrow> a = b"
  by (cases a; cases b) (simp add: vsub_def)

lemma smul_one: "smul v 1 = v"
  by (cases v) (simp add: smul_def)

lemma twist_updates:
  "(c :: Twist)\<lparr>twist_linear := l, twist_angular := a\<rparr> =
   \<lparr>twist_linear = l, twist_angular = a\<rparr>"
  by (cases c) simp

lemma determineDesiredVelocity_dt_zero:
  "\<exists>cmd. determineDesiredVelocity 0 st cmd_vel = Inr cmd \<and>
         twist_linear cmd = twist_linear (last_cmd_vel st)"
proof -
  obtain vd where vd: "vel_desired st = Inr vd" using vel_desired_Inr by blast
  let ?prev = "twist_linear (last_cmd_vel st)"
  show ?thesis
  proof (cases "length3 (vsub vd ?prev) = 0")
    case True
    then have "vd = ?prev" by (simp add: length3_eq_0_iff vsub_eq_zero)
    with True show ?thesis
      by (simp add: determineDesiredVelocity_def vd Let_def acc_desired_def fdiv_def smul_one)
  next
    case False
    then have "0 < length3 (vsub vd ?prev)" using length3_nonneg[of "vsub vd ?prev"] by linarith
    with False show ?thesis
      by (cases ?prev)
        (simp add: determineDesiredVelocity_def vd Let_def acc_desired_def fdiv_def normalized_def
          smul_def vadd_def)
  qed
qed

lemma determineDesiredVelocity_dt_neg:
  assumes "dt < 0" "0 \<le> MAX_ACC st" "vel_desired st = Inr vd"
  shows "\<exists>cmd. determineDesiredVelocity dt st cmd_vel = Inr cmd \<and> twist_linear cmd = vd"
proof -
  have "length3 (vsub vd (twist_linear (last_cmd_vel st))) / dt \<le> 0"
    using assms(1) length3_nonneg by (simp add: divide_nonneg_neg divide_le_0_iff)
  with assms(2) have "\<not> MAX_ACC st < length3 (vsub vd (twist_linear (last_cmd_vel st))) / dt"
    by linarith
  with assms(1) show ?thesis
    by (simp add: determineDesiredVelocity_def assms(3) Let_def acc_desired_def fdiv_def smul_one)
qed

lemma determineDesiredVelocity_angular:
  "determineDesiredVelocity dt st cmd_vel = Inr cmd \<Longrightarrow>
   getX (twist_angular cmd) = 0 \<and> getY (twist_angular cmd) = 0"
  by (auto simp: determineDesiredVelocity_def Let_def split: sum.splits if_splits option.splits)

lemma vel_desired_z:
  "vel_desired st = Inr vd \<Longrightarrow> getZ (goal st) = 0 \<Longrightarrow> getZ vd = 0"
  by (auto simp: vel_desired_def Let_def normalized_def smul_def split: dbl.splits if_splits)

lemma determineDesiredVelocity_linear_z:
  assumes "determineDesiredVelocity dt st cmd_vel = Inr cmd" "getZ (goal st) = 0"
    "getZ (twist_linear (last_cmd_vel st)) = 0"
  shows "getZ (twist_linear cmd) = 0"
proof -
  obtain vd where vd: "vel_desired st = Inr vd" using vel_desired_Inr by blast
  have z: "getZ vd = 0" using vel_desired_z[OF vd assms(2)] .
  show ?thesis
    using assms(1,3) z
    by (auto simp: determineDesiredVelocity_def vd Let_def normalized_def smul_def vadd_def vsub_def
        split: if_splits)
qed

lemma determineDesiredVelocity_blocked:
  assumes "goal st = Vec3 0 0 0" "0 < dt" "0 \<le> MAX_ACC st"
    and "MAX_ACC st * dt < length3 (twist_linear (last_cmd_vel st))"
  shows "determineDesiredVelocity dt st cmd_vel =
           Inr \<lparr>twist_linear =
                  smul (twist_linear (last_cmd_vel st))
                    (1 - MAX_ACC st * dt / length3 (twist_linear (last_cmd_vel st))),
                twist_angular =
                  Vec3 0 0
                    (determineReference (goal_angle st) (getZ (twist_angular (last_cmd_vel st)))
                       (MAX_VEL_THETA st) (MAX_ACC_THETA st) dt)\<rparr>"
proof -
  let ?prev = "twist_linear (last_cmd_vel st)"
  let ?L = "length3 ?prev"
  have vd: "vel_desired st = Inr (Vec3 0 0 0)"
    using assms(1) by (rule vel_desired_zero_goal)
  have L: "0 < ?L"
    using assms(2-4) by (smt (verit) mult_nonneg_nonneg)
  have acc: "MAX_ACC st < ?L / dt"
    using assms(2,4) by (simp add: pos_less_divide_eq)
  have n: "normalized (vsub (Vec3 0 0 0) ?prev) = Some (smul (vsub (Vec3 0 0 0) ?prev) (1 / ?L))"
    using L by (simp add: normalized_def length3_vsub_zero)
  have v: "vadd ?prev (smul (smul (smul (vsub (Vec3 0 0 0) ?prev) (1 / ?L)) (MAX_ACC st)) dt)
           = smul ?prev (1 - MAX_ACC st * dt / ?L)"
    by (cases ?prev) (simp add: smul_def vadd_def vsub_def algebra_simps)
  show ?thesis
    using acc assms(2)
    by (simp add: determineDesiredVelocity_def vd Let_def acc_desired_def fdiv_def n
        length3_vsub_zero v twist_updates)
qed

lemma length3_axis: "length3 (Vec3 a 0 0) = \<bar>a\<bar>" "length3 (Vec3 0 0 a) = \<bar>a\<bar>"
  by (simp_all add: length3_def)

lemma sqrt_scenario_bound: "5 / 9 \<le> sqrt (2 * 2 * 0.15)"
  by (rule real_le_rsqrt) (simp add: power2_eq_square)

lemma determineReference_zero: "0 \<le> ma * dt \<Longrightarrow> determineReference 0 0 mv ma dt = 0"
  by (simp add: determineReference_def reference_phase_def Let_def)

lemma v_desired_norm_t_last: "v_desired_norm (st\<lparr>t_last_cmd_vel := t\<rparr>) = v_desired_norm st"
  by (simp add: v_desired_norm_def Let_def)

lemma vel_desired_t_last: "vel_desired (st\<lparr>t_last_cmd_vel := t\<rparr>) = vel_desired st"
  by (simp add: vel_desired_def Let_def v_desired_norm_t_last)

lemma determineDesiredVelocity_t_last:
  "determineDesiredVelocity dt (st\<lparr>t_last_cmd_vel := t\<rparr>) c = determineDesiredVelocity dt st c"
  by (simp add: determineDesiredVelocity_def Let_def vel_desired_t_last acc_desired_def
      cong: sum.case_cong option.case_cong if_cong)

lemma determineDesiredVelocity_cmd:
  "determineDesiredVelocity dt st (c :: Twist) = determineDesiredVelocity dt st c'"
  by (simp add: determineDesiredVelocity_def Let_def twist_updates
      cong: sum.case_cong option.case_cong if_cong)

lemma computeVelocityCommand_eq:
  "computeVelocityCommand ns nn st cmd_vel =
     (case isClearLine st of
        Inl e \<Rightarrow> Inl e
      | Inr clear \<Rightarrow>
          (case determineDesiredVelocity (tick_dt ns nn st)
                  (if clear then st else st\<lparr>goal := Vec3 0 0 0\<rparr>) cmd_vel of
             Inl e \<Rightarrow> Inl e
           | Inr cmd2 \<Rightarrow>
               Inr (True, cmd2,
                    (if clear then st else st\<lparr>goal := Vec3 0 0 0\<rparr>)
                      \<lparr>t_last_cmd_vel := tick_time ns nn, last_cmd_vel := cmd2\<rparr>)))"
proof (cases "isClearLine st")
  case (Inl e)
  then show ?thesis by (simp add: computeVelocityCommand_def Let_def isClearLine_t_last)
next
  case (Inr clear)
  have g: "st\<lparr>t_last_cmd_vel := t, goal := v\<rparr> = st\<lparr>goal := v\<rparr>\<lparr>t_last_cmd_vel := t\<rparr>" for t v
    by simp
  show ?thesis
  proof (cases clear)
    case True
    with Inr show ?thesis
      by (simp add: computeVelocityCommand_def Let_def isClearLine_t_last
          determineDesiredVelocity_t_last split: sum.splits)
  next
    case False
    have c: "determineDesiredVelocity dt s (setZeroVelocity cmd_vel) =
             determineDesiredVelocity dt s cmd_vel" for dt s
      by (rule determineDesiredVelocity_cmd)
    from False Inr show ?thesis
      by (simp add: computeVelocityCommand_def Let_def isClearLine_t_last g
          determineDesiredVelocity_t_last c split: sum.splits del: CarrotPlanner.simps)
  qed
qed

lemma isClearLine_clear_scan:
  assumes "laser_data_available st" "goal_angle st = 0" "laser_scan st = example_scan"
    and "RADIUS_ROBOT st = 0.25" "DISTANCE_VIRTUAL_WALL st = 0.5"
  shows "isClearLine st = Inr True"
proof -
  have d: "d_step st = Inr 1"
    by (rule d_step_default) (simp_all add: assms example_scan_def)
  have i: "index_beam_obst st = Inr 5"
    by (rule index_beam_obst_ahead) (simp_all add: assms example_scan_def)
  show ?thesis
    unfolding isClearLine_def d i
    by (simp add: assms example_scan_def in_int_small scan_loop.simps)
qed

lemma isClearLine_side_scan:
  assumes "laser_data_available st" "goal_angle st = 0"
    and "laser_scan st = example_scan\<lparr>ranges := [0.3, 1, 1, 1, 1, 1, 1, 1, 1, 1]\<rparr>"
    and "RADIUS_ROBOT st = 0.25" "DISTANCE_VIRTUAL_WALL st = 0.5"
  shows "isClearLine st = Inr False"
proof -
  have d: "d_step st = Inr 1"
    by (rule d_step_default) (simp_all add: assms example_scan_def)
  have i: "index_beam_obst st = Inr 5"
    by (rule index_beam_obst_ahead) (simp_all add: assms example_scan_def)
  show ?thesis
    unfolding isClearLine_def d i
    by (simp add: assms example_scan_def in_int_small scan_loop.simps)
qed

lemma isClearLine_first_tick: "isClearLine first_tick_planner = Inr True"
  by (rule isClearLine_clear_scan) (simp_all add: first_tick_planner_def example_planner_def)

lemma isClearLine_moving_blocked: "isClearLine moving_blocked_planner = Inr False"
  by (rule isClearLine_side_scan)
    (simp_all add: moving_blocked_planner_def side_obstacle_planner_def example_planner_def)

lemma setGoal_example:
  "setGoal yaw_about_z example_planner (example_pose ''/base_link'' g) =
     (True, example_planner\<lparr>goal := g,
        carrot_pub := [\<lparr>marker_frame_id = ''/base_link'',
                        points = [Vec3 0 0 0.05, Vec3 (getX g) (getY g) 0.05]\<rparr>]\<rparr>)"
  by (simp add: setGoal_def Let_def publishCarrot_def example_pose_def example_planner_def
      yaw_about_z_def atan2_def)

lemma determineDesiredVelocity_from_rest:
  assumes "vel_desired st = Inr (Vec3 x 0 z)" "twist_linear (last_cmd_vel st) = Vec3 0 0 0"
    "getZ (twist_angular (last_cmd_vel st)) = 0" "goal_angle st = 0"
    "MAX_ACC st = 0.15" "MAX_VEL_THETA st = 0.3" "MAX_ACC_THETA st = 0.25"
    "dt = 0.1" "length3 (Vec3 x 0 z) = 0.5"
  shows "determineDesiredVelocity dt st c =
     Inr \<lparr>twist_linear = Vec3 (x * 2 * 0.15 * 0.1) 0 (z * 2 * 0.15 * 0.1),
          twist_angular = Vec3 0 0 0\<rparr>"
proof -
  have v: "vsub (Vec3 x 0 z) (Vec3 0 0 0) = Vec3 x 0 z" by (simp add: vsub_def)
  show ?thesis
    unfolding determineDesiredVelocity_def Let_def assms(1-8) v acc_desired_def twist_updates
    by (simp add: v assms(9) fdiv_def normalized_def smul_def vadd_def determineReference_zero)
qed

lemma v_desired_norm_two:
  assumes "length3 (goal st) = 2" "MAX_VEL st = 0.5" "MAX_ACC st = 0.15" "GAIN st = 0.9"
  shows "v_desired_norm st = Finite 0.5"
proof -
  have "v_desired_norm st = Finite (min 0.5 (0.9 * sqrt (2 * 2 * 0.15)))"
    unfolding v_desired_norm_Finite assms by simp
  also have "min 0.5 (0.9 * sqrt (2 * 2 * 0.15)) = (0.5::real)"
    using sqrt_scenario_bound by (simp add: min_def)
  finally show ?thesis .
qed

lemma vel_desired_two_ahead:
  assumes "goal st = Vec3 2 0 0" "MAX_VEL st = 0.5" "MAX_ACC st = 0.15" "GAIN st = 0.9"
  shows "vel_desired st = Inr (Vec3 0.5 0 0)"
proof -
  have v: "v_desired_norm st = Finite 0.5"
    by (rule v_desired_norm_two) (simp_all add: assms length3_axis)
  show ?thesis
    unfolding vel_desired_def v Let_def assms(1)
    by (simp add: length3_axis normalized_def smul_def)
qed

lemma vel_desired_two_up:
  assumes "goal st = Vec3 0 0 2" "MAX_VEL st = 0.5" "MAX_ACC st = 0.15" "GAIN st = 0.9"
  shows "vel_desired st = Inr (Vec3 0 0 0.5)"
proof -
  have v: "v_desired_norm st = Finite 0.5"
    by (rule v_desired_norm_two) (simp_all add: assms length3_axis)
  show ?thesis
    unfolding vel_desired_def v Let_def assms(1)
    by (simp add: length3_axis normalized_def smul_def)
qed

lemma computeVelocityCommand_ahead:
  "computeVelocityCommand 50.05 50050000000 ahead_goal_planner
     \<lparr>twist_linear = Vec3 0 0 0, twist_angular = Vec3 0 0 0\<rparr> =
   Inr (True, \<lparr>twist_linear = Vec3 0.015 0 0, twist_angular = Vec3 0 0 0\<rparr>,
        ahead_goal_planner\<lparr>t_last_cmd_vel := 100.1,
          last_cmd_vel := \<lparr>twist_linear = Vec3 0.015 0 0, twist_angular = Vec3 0 0 0\<rparr>\<rparr>)"
proof -
  have c: "isClearLine ahead_goal_planner = Inr True"
    by (rule isClearLine_clear_scan) (simp_all add: ahead_goal_planner_def example_planner_def)
  have dt: "tick_dt 50.05 50050000000 ahead_goal_planner = 0.1"
    by (simp add: tick_dt_def tick_time_def ahead_goal_planner_def example_planner_def)
  have t: "tick_time 50.05 50050000000 = 100.1" by (simp add: tick_time_def)
  have vd: "vel_desired ahead_goal_planner = Inr (Vec3 0.5 0 0)"
    by (rule vel_desired_two_ahead) (simp_all add: ahead_goal_planner_def example_planner_def)
  have d: "determineDesiredVelocity 0.1 ahead_goal_planner c =
     Inr \<lparr>twist_linear = Vec3 (0.5 * 2 * 0.15 * 0.1) 0 (0 * 2 * 0.15 * 0.1),
          twist_angular = Vec3 0 0 0\<rparr>" for c
    by (rule determineDesiredVelocity_from_rest[OF vd])
      (simp_all add: ahead_goal_planner_def example_planner_def length3_axis)
  show ?thesis
    by (simp only: computeVelocityCommand_eq c dt t d sum.case if_True) simp
qed

lemma determineReference_zero_negative_dt:
  "determineReference 0 0 0.3 0.25 (- 0.1) = 0.025"
  by (simp add: determineReference_def reference_phase_def dec_distance_def fdiv_def
      sign_def Let_def)

lemma computeVelocityCommand_negative_dt:
  "computeVelocityCommand 49.95 49950000000 ahead_goal_planner
     \<lparr>twist_linear = Vec3 0 0 0, twist_angular = Vec3 0 0 0\<rparr> =
   Inr (True, \<lparr>twist_linear = Vec3 0.5 0 0, twist_angular = Vec3 0 0 0.025\<rparr>,
        ahead_goal_planner\<lparr>t_last_cmd_vel := 99.9,
          last_cmd_vel := \<lparr>twist_linear = Vec3 0.5 0 0, twist_angular = Vec3 0 0 0.025\<rparr>\<rparr>)"
proof -
  have c: "isClearLine ahead_goal_planner = Inr True"
    by (rule isClearLine_clear_scan) (simp_all add: ahead_goal_planner_def example_planner_def)
  have dt: "tick_dt 49.95 49950000000 ahead_goal_planner = - 0.1"
    by (simp add: tick_dt_def tick_time_def ahead_goal_planner_def example_planner_def)
  have t: "tick_time 49.95 49950000000 = 99.9" by (simp add: tick_time_def)
  have vd: "vel_desired ahead_goal_planner = Inr (Vec3 0.5 0 0)"
    by (rule vel_desired_two_ahead) (simp_all add: ahead_goal_planner_def example_planner_def)
  have r: "determineReference (goal_angle ahead_goal_planner)
             (getZ (twist_angular (last_cmd_vel ahead_goal_planner)))
             (MAX_VEL_THETA ahead_goal_planner) (MAX_ACC_THETA ahead_goal_planner) (- 0.1) = 0.025"
    using determineReference_zero_negative_dt
    by (simp add: ahead_goal_planner_def example_planner_def)
  have d: "determineDesiredVelocity (- 0.1) ahead_goal_planner c =
     Inr \<lparr>twist_linear = Vec3 0.5 0 0, twist_angular = Vec3 0 0 0.025\<rparr>" for c
    unfolding determineDesiredVelocity_def Let_def vd twist_updates r
    by (simp add: ahead_goal_planner_def example_planner_def acc_desired_def vsub_def
        length3_axis fdiv_def smul_def)
  show ?thesis
    by (simp only: computeVelocityCommand_eq c dt t d sum.case if_True)
qed

lemma first_tick_divides_by_zero:
  "tick_dt 50.05 50050000000 first_tick_planner = 0 \<and>
   vel_desired first_tick_planner = Inr (Vec3 0.5 0 0) \<and>
   acc_desired 0 first_tick_planner (Vec3 0.5 0 0) = PosInf \<and>
   flt (Finite (MAX_ACC first_tick_planner)) (acc_desired 0 first_tick_planner (Vec3 0.5 0 0))"
proof -
  have vd: "vel_desired first_tick_planner = Inr (Vec3 0.5 0 0)"
    by (rule vel_desired_two_ahead) (simp_all add: first_tick_planner_def example_planner_def)
  have a: "acc_desired 0 first_tick_planner (Vec3 0.5 0 0) = PosInf"
    by (simp add: acc_desired_def first_tick_planner_def example_planner_def vsub_def
        length3_axis fdiv_def)
  show ?thesis
    unfolding a vd by (simp add: tick_dt_def first_tick_planner_def example_planner_def)
qed

lemma MoveToGoal_up:
  "MoveToGoal yaw_about_z 50.05 50050000000 example_planner
     (example_pose ''/base_link'' (Vec3 0 0 2)) =
   Inr (True, example_planner\<lparr>t_last_cmd_vel := 100.1, goal := Vec3 0 0 2,
          last_cmd_vel := \<lparr>twist_linear = Vec3 0 0 0.015, twist_angular = Vec3 0 0 0\<rparr>,
          carrot_pub := [\<lparr>marker_frame_id = ''/base_link'',
                          points = [Vec3 0 0 0.05, Vec3 0 0 0.05]\<rparr>],
          cmd_vel_pub := [\<lparr>twist_linear = Vec3 0 0 0.015, twist_angular = Vec3 0 0 0\<rparr>]\<rparr>)"
proof -
  let ?st1 = "example_planner\<lparr>goal := Vec3 0 0 2,
        carrot_pub := [\<lparr>marker_frame_id = ''/base_link'',
                        points = [Vec3 0 0 0.05,
                                  Vec3 (getX (Vec3 0 0 2)) (getY (Vec3 0 0 2)) 0.05]\<rparr>]\<rparr>"
  have c: "isClearLine ?st1 = Inr True"
    by (rule isClearLine_clear_scan) (simp_all add: example_planner_def)
  have dt: "tick_dt 50.05 50050000000 ?st1 = 0.1"
    by (simp add: tick_dt_def tick_time_def example_planner_def)
  have t: "tick_time 50.05 50050000000 = 100.1" by (simp add: tick_time_def)
  have vd: "vel_desired ?st1 = Inr (Vec3 0 0 0.5)"
    by (rule vel_desired_two_up) (simp_all add: example_planner_def)
  have d: "determineDesiredVelocity 0.1 ?st1 c =
     Inr \<lparr>twist_linear = Vec3 (0 * 2 * 0.15 * 0.1) 0 (0.5 * 2 * 0.15 * 0.1),
          twist_angular = Vec3 0 0 0\<rparr>" for c
    by (rule determineDesiredVelocity_from_rest[OF vd]) (simp_all add: example_planner_def length3_axis)
  show ?thesis
    by (simp only: MoveToGoal_def Let_def setGoal_example prod.case bool.case
        computeVelocityCommand_eq c dt t d sum.case if_True)
      (simp add: example_planner_def)
qed

lemma MoveToGoal_ahead:
  "MoveToGoal yaw_about_z 50.05 50050000000 example_planner
     (example_pose ''/base_link'' (Vec3 2 0 0)) =
   Inr (True, example_planner\<lparr>t_last_cmd_vel := 100.1, goal := Vec3 2 0 0,
          last_cmd_vel := \<lparr>twist_linear = Vec3 0.015 0 0, twist_angular = Vec3 0 0 0\<rparr>,
          carrot_pub := [\<lparr>marker_frame_id = ''/base_link'',
                          points = [Vec3 0 0 0.05, Vec3 2 0 0.05]\<rparr>],
          cmd_vel_pub := [\<lparr>twist_linear = Vec3 0.015 0 0, twist_angular = Vec3 0 0 0\<rparr>]\<rparr>)"
proof -
  let ?st1 = "example_planner\<lparr>goal := Vec3 2 0 0,
        carrot_pub := [\<lparr>marker_frame_id = ''/base_link'',
                        points = [Vec3 0 0 0.05,
                                  Vec3 (getX (Vec3 2 0 0)) (getY (Vec3 2 0 0)) 0.05]\<rparr>]\<rparr>"
  have c: "isClearLine ?st1 = Inr True"
    by (rule isClearLine_clear_scan) (simp_all add: example_planner_def)
  have dt: "tick_dt 50.05 50050000000 ?st1 = 0.1"
    by (simp add: tick_dt_def tick_time_def example_planner_def)
  have t: "tick_time 50.05 50050000000 = 100.1" by (simp add: tick_time_def)
  have vd: "vel_desired ?st1 = Inr (Vec3 0.5 0 0)"
    by (rule vel_desired_two_ahead) (simp_all add: example_planner_def)
  have d: "determineDesiredVelocity 0.1 ?st1 c =
     Inr \<lparr>twist_linear = Vec3 (0.5 * 2 * 0.15 * 0.1) 0 (0 * 2 * 0.15 * 0.1),
          twist_angular = Vec3 0 0 0\<rparr>" for c
    by (rule determineDesiredVelocity_from_rest[OF vd]) (simp_all add: example_planner_def length3_axis)
  show ?thesis
    by (simp only: MoveToGoal_def Let_def setGoal_example prod.case bool.case
        computeVelocityCommand_eq c dt t d sum.case if_True)
      (simp add: example_planner_def)
qed

text \<open>
  C3. When the path is blocked, the tick interval is positive and the previous
  translational command is longer than \<open>maxAccTrans * dt\<close> (for a non-negative
  acceleration limit), the tick succeeds and the translational command it emits is the
  previous one scaled by \<open>1 - maxAccTrans * dt / |previous|\<close>: the same direction,
  shorter by exactly \<open>maxAccTrans * dt\<close>, and not zero. The command does not depend on
  the command passed in, so the zeroing in the blocked branch has no effect; of the planner
  state, the goal vector is zeroed, and the tick time and the last command are stored.
\<close>

theorem blocked_translation_not_stopped:
  assumes "isClearLine st = Inr False" "0 < tick_dt ns nn st" "0 \<le> MAX_ACC st"
    and "MAX_ACC st * tick_dt ns nn st < length3 (twist_linear (last_cmd_vel st))"
  shows "(let prev = twist_linear (last_cmd_vel st);
              dt = tick_dt ns nn st;
              cmd = \<lparr>twist_linear = smul prev (1 - MAX_ACC st * dt / length3 prev),
                     twist_angular =
                       Vec3 0 0
                         (determineReference (goal_angle st)
                            (getZ (twist_angular (last_cmd_vel st)))
                            (MAX_VEL_THETA st) (MAX_ACC_THETA st) dt)\<rparr>
          in computeVelocityCommand ns nn st cmd_vel =
               Inr (True, cmd,
                    st\<lparr>goal := Vec3 0 0 0, t_last_cmd_vel := tick_time ns nn,
                       last_cmd_vel := cmd\<rparr>) \<and>
             length3 (twist_linear cmd) = length3 prev - MAX_ACC st * dt \<and>
             twist_linear cmd \<noteq> Vec3 0 0 0)"
proof -
  let ?st2 = "st\<lparr>goal := Vec3 0 0 0\<rparr>"
  let ?prev = "twist_linear (last_cmd_vel st)"
  let ?L = "length3 ?prev"
  let ?k = "MAX_ACC st * tick_dt ns nn st"
  let ?lin = "smul ?prev (1 - ?k / ?L)"
  have d: "determineDesiredVelocity (tick_dt ns nn st) ?st2 cmd_vel =
           Inr \<lparr>twist_linear = ?lin,
                twist_angular =
                  Vec3 0 0
                    (determineReference (goal_angle st) (getZ (twist_angular (last_cmd_vel st)))
                       (MAX_VEL_THETA st) (MAX_ACC_THETA st) (tick_dt ns nn st))\<rparr>"
    using determineDesiredVelocity_blocked [of ?st2 "tick_dt ns nn st" cmd_vel] assms
    by simp
  have k: "0 \<le> ?k" using assms(2,3) by simp
  with assms(4) have L: "0 < ?L" by linarith
  have f: "0 < 1 - ?k / ?L" using assms(4) L by (simp add: field_simps)
  have len: "length3 ?lin = ?L - ?k"
    using f L unfolding length3_smul by (simp add: field_simps)
  have nz: "?lin \<noteq> Vec3 0 0 0"
    using len assms(4) by (simp flip: length3_eq_0_iff)
  show ?thesis
    unfolding computeVelocityCommand_eq Let_def using assms(1) d len nz by simp
qed

theorem blocked_translation_not_stopped_witness:
  "isClearLine moving_blocked_planner = Inr False \<and>
   tick_dt 50.05 50050000000 moving_blocked_planner = 0.1 \<and>
   0 \<le> MAX_ACC moving_blocked_planner \<and>
   MAX_ACC moving_blocked_planner * 0.1 <
     length3 (twist_linear (last_cmd_vel moving_blocked_planner)) \<and>
   computeVelocityCommand 50.05 50050000000 moving_blocked_planner
     \<lparr>twist_linear = Vec3 0 0 0, twist_angular = Vec3 0 0 0\<rparr> =
   Inr (True, \<lparr>twist_linear = Vec3 0.285 0 0, twist_angular = Vec3 0 0 0\<rparr>,
        moving_blocked_planner\<lparr>goal := Vec3 0 0 0, t_last_cmd_vel := 100.1,
          last_cmd_vel := \<lparr>twist_linear = Vec3 0.285 0 0, twist_angular = Vec3 0 0 0\<rparr>\<rparr>)"
proof -
  have dt: "tick_dt 50.05 50050000000 moving_blocked_planner = 0.1"
    by (simp add: tick_dt_def tick_time_def moving_blocked_planner_def
        side_obstacle_planner_def example_planner_def)
  have f: "MAX_ACC moving_blocked_planner = 0.15"
    "twist_linear (last_cmd_vel moving_blocked_planner) = Vec3 0.3 0 0"
    "goal_angle moving_blocked_planner = 0"
    "getZ (twist_angular (last_cmd_vel moving_blocked_planner)) = 0"
    "MAX_ACC_THETA moving_blocked_planner = 0.25"
    by (simp_all add: moving_blocked_planner_def side_obstacle_planner_def example_planner_def)
  have t: "tick_time 50.05 50050000000 = 100.1" by (simp add: tick_time_def)
  show ?thesis
    using blocked_translation_not_stopped [of moving_blocked_planner "50.05" 50050000000
        "\<lparr>twist_linear = Vec3 0 0 0, twist_angular = Vec3 0 0 0\<rparr>"]
      isClearLine_moving_blocked
    unfolding dt f t Let_def
    by (simp add: length3_axis smul_def determineReference_zero)
qed

text \<open>
  C4, as stated: every command emitted by a successful tick has zero rotational x and y
  components and a zero translational z component, whatever the goal pose. A goal 2 m
  above the robot, from rest and with a clear path, is answered with a command whose
  translational z component is 0.015.
\<close>

theorem command_components_counterexample:
  "MoveToGoal yaw_about_z 50.05 50050000000 example_planner
     (example_pose ''/base_link'' (Vec3 0 0 2)) =
   Inr (True, example_planner\<lparr>t_last_cmd_vel := 100.1, goal := Vec3 0 0 2,
          last_cmd_vel := \<lparr>twist_linear = Vec3 0 0 0.015, twist_angular = Vec3 0 0 0\<rparr>,
          carrot_pub := [\<lparr>marker_frame_id = ''/base_link'',
                          points = [Vec3 0 0 0.05, Vec3 0 0 0.05]\<rparr>],
          cmd_vel_pub := [\<lparr>twist_linear = Vec3 0 0 0.015, twist_angular = Vec3 0 0 0\<rparr>]\<rparr>) \<and>
   getZ (twist_linear \<lparr>twist_linear = Vec3 0 0 0.015, twist_angular = Vec3 0 0 0\<rparr>) \<noteq> 0"
  using MoveToGoal_up by simp

text \<open>
  C4, amended: every command emitted by a successful tick is the new last command and has
  both non-vertical rotational components equal to zero; its translational z component is
  zero whenever the goal position has z = 0 and the previous command has translational
  z = 0.
\<close>

theorem command_components:
  assumes "MoveToGoal getYaw ns nn st pose = Inr (True, st')"
  shows "cmd_vel_pub st' = cmd_vel_pub st @ [last_cmd_vel st'] \<and>
         getX (twist_angular (last_cmd_vel st')) = 0 \<and>
         getY (twist_angular (last_cmd_vel st')) = 0 \<and>
         (getZ (position pose) = 0 \<and> getZ (twist_linear (last_cmd_vel st)) = 0 \<longrightarrow>
            getZ (twist_linear (last_cmd_vel st')) = 0)"
proof -
  obtain st1 where s: "setGoal getYaw st pose = (True, st1)"
    using assms by (cases "setGoal getYaw st pose") (auto simp: MoveToGoal_def split: bool.splits)
  then have f: "frame_id pose = tracking_frame st"
    by (auto simp: setGoal_def split: if_splits)
  have st1: "goal st1 = position pose" "last_cmd_vel st1 = last_cmd_vel st" "cmd_vel_pub st1 = cmd_vel_pub st"
    using s f by (auto simp: setGoal_def Let_def publishCarrot_def)
  let ?c0 = "\<lparr>twist_linear = Vec3 0 0 0, twist_angular = Vec3 0 0 0\<rparr>"
  obtain clear where c: "isClearLine st1 = Inr clear"
    using assms s by (cases "isClearLine st1") (auto simp: MoveToGoal_def computeVelocityCommand_eq)
  let ?st2 = "if clear then st1 else st1\<lparr>goal := Vec3 0 0 0\<rparr>"
  obtain cmd where d: "determineDesiredVelocity (tick_dt ns nn st1) ?st2 ?c0 = Inr cmd"
    using assms s c by (cases "determineDesiredVelocity (tick_dt ns nn st1) ?st2 ?c0")
      (auto simp: MoveToGoal_def computeVelocityCommand_eq)
  have st': "st' = ?st2\<lparr>t_last_cmd_vel := tick_time ns nn, last_cmd_vel := cmd,
                        cmd_vel_pub := cmd_vel_pub st1 @ [cmd]\<rparr>"
    using assms s c d by (auto simp: MoveToGoal_def computeVelocityCommand_eq split: if_splits)
  have z: "getZ (position pose) = 0 \<Longrightarrow> getZ (twist_linear (last_cmd_vel st)) = 0 \<Longrightarrow>
           getZ (twist_linear cmd) = 0"
    by (rule determineDesiredVelocity_linear_z[OF d]) (simp_all add: st1)
  show ?thesis
    using determineDesiredVelocity_angular[OF d] z by (simp add: st' st1)
qed

theorem command_components_witness:
  "MoveToGoal yaw_about_z 50.05 50050000000 example_planner
     (example_pose ''/base_link'' (Vec3 2 0 0)) =
   Inr (True, example_planner\<lparr>t_last_cmd_vel := 100.1, goal := Vec3 2 0 0,
          last_cmd_vel := \<lparr>twist_linear = Vec3 0.015 0 0, twist_angular = Vec3 0 0 0\<rparr>,
          carrot_pub := [\<lparr>marker_frame_id = ''/base_link'',
                          points = [Vec3 0 0 0.05, Vec3 2 0 0.05]\<rparr>],
          cmd_vel_pub := [\<lparr>twist_linear = Vec3 0.015 0 0, twist_angular = Vec3 0 0 0\<rparr>]\<rparr>) \<and>
   getZ (position (example_pose ''/base_link'' (Vec3 2 0 0))) = 0 \<and>
   getZ (twist_linear (last_cmd_vel example_planner)) = 0 \<and>
   getZ (twist_linear \<lparr>twist_linear = Vec3 0.015 0 0, twist_angular = Vec3 0 0 0\<rparr>) = 0"
  using command_components [OF MoveToGoal_ahead] MoveToGoal_ahead
  by (simp add: example_pose_def example_planner_def)

text \<open>
  C5, as stated: in a tick whose interval is zero or negative the translational
  computation skips acceleration scaling, holds a safe velocity and never divides or scales
  by the interval. The code has no test on \<open>dt\<close>. On a first tick (\<open>dt = 0\<close>) with a
  goal ahead it divides by \<open>dt\<close>, gets an infinite acceleration and enters the scaling
  branch; with \<open>dt = - 0.1\<close> the command jumps from rest to the desired velocity of
  0.5 m/s.
\<close>

theorem nonpositive_dt_counterexample:
  "tick_dt 50.05 50050000000 first_tick_planner = 0 \<and>
   vel_desired first_tick_planner = Inr (Vec3 0.5 0 0) \<and>
   acc_desired 0 first_tick_planner (Vec3 0.5 0 0) = PosInf \<and>
   flt (Finite (MAX_ACC first_tick_planner)) (acc_desired 0 first_tick_planner (Vec3 0.5 0 0)) \<and>
   tick_dt 49.95 49950000000 ahead_goal_planner = - 0.1 \<and>
   twist_linear (last_cmd_vel ahead_goal_planner) = Vec3 0 0 0 \<and>
   computeVelocityCommand 49.95 49950000000 ahead_goal_planner
     \<lparr>twist_linear = Vec3 0 0 0, twist_angular = Vec3 0 0 0\<rparr> =
   Inr (True, \<lparr>twist_linear = Vec3 0.5 0 0, twist_angular = Vec3 0 0 0.025\<rparr>,
        ahead_goal_planner\<lparr>t_last_cmd_vel := 99.9,
          last_cmd_vel := \<lparr>twist_linear = Vec3 0.5 0 0, twist_angular = Vec3 0 0 0.025\<rparr>\<rparr>)"
  using first_tick_divides_by_zero computeVelocityCommand_negative_dt
  by (simp add: tick_dt_def tick_time_def ahead_goal_planner_def example_planner_def)

text \<open>
  C5, amended: in a tick whose interval is zero the translational command emitted equals
  the previous translational command (the velocity is held), and in a tick whose interval
  is negative, for a non-negative acceleration limit, the acceleration-scaling branch is
  skipped and the translational command is the desired velocity; in both cases the tick
  returns a command, provided the virtual-wall check returns.
\<close>

theorem nonpositive_dt:
  assumes "isClearLine st = Inr clear"
  shows "(tick_dt ns nn st = 0 \<longrightarrow>
           (\<exists>cmd st'. computeVelocityCommand ns nn st cmd_vel = Inr (True, cmd, st') \<and>
              twist_linear cmd = twist_linear (last_cmd_vel st))) \<and>
         (tick_dt ns nn st < 0 \<and> 0 \<le> MAX_ACC st \<longrightarrow>
           (\<exists>cmd st'. computeVelocityCommand ns nn st cmd_vel = Inr (True, cmd, st') \<and>
              vel_desired (if clear then st else st\<lparr>goal := Vec3 0 0 0\<rparr>) = Inr (twist_linear cmd)))"
proof (intro conjI impI)
  let ?st2 = "if clear then st else st\<lparr>goal := Vec3 0 0 0\<rparr>"
  assume z: "tick_dt ns nn st = 0"
  obtain cmd where "determineDesiredVelocity 0 ?st2 cmd_vel = Inr cmd"
    "twist_linear cmd = twist_linear (last_cmd_vel ?st2)"
    using determineDesiredVelocity_dt_zero by blast
  then show "\<exists>cmd st'. computeVelocityCommand ns nn st cmd_vel = Inr (True, cmd, st') \<and>
              twist_linear cmd = twist_linear (last_cmd_vel st)"
    unfolding computeVelocityCommand_eq using assms z by (auto split: if_splits)
next
  let ?st2 = "if clear then st else st\<lparr>goal := Vec3 0 0 0\<rparr>"
  assume n: "tick_dt ns nn st < 0 \<and> 0 \<le> MAX_ACC st"
  obtain vd where vd: "vel_desired ?st2 = Inr vd" using vel_desired_Inr by blast
  have "\<exists>cmd. determineDesiredVelocity (tick_dt ns nn st) ?st2 cmd_vel = Inr cmd \<and> twist_linear cmd = vd"
    by (rule determineDesiredVelocity_dt_neg[OF _ _ vd]) (use n in auto)
  then show "\<exists>cmd st'. computeVelocityCommand ns nn st cmd_vel = Inr (True, cmd, st') \<and>
              vel_desired ?st2 = Inr (twist_linear cmd)"
    unfolding computeVelocityCommand_eq using assms vd by auto
qed

theorem nonpositive_dt_witness:
  "isClearLine first_tick_planner = Inr True \<and>
   tick_dt 50.05 50050000000 first_tick_planner = 0 \<and>
   (\<exists>cmd st'. computeVelocityCommand 50.05 50050000000 first_tick_planner
                 \<lparr>twist_linear = Vec3 0 0 0, twist_angular = Vec3 0 0 0\<rparr> = Inr (True, cmd, st') \<and>
       twist_linear cmd = Vec3 0 0 0) \<and>
   isClearLine ahead_goal_planner = Inr True \<and>
   tick_dt 49.95 49950000000 ahead_goal_planner < 0 \<and>
   0 \<le> MAX_ACC ahead_goal_planner \<and>
   (\<exists>cmd st'. computeVelocityCommand 49.95 49950000000 ahead_goal_planner
                 \<lparr>twist_linear = Vec3 0 0 0, twist_angular = Vec3 0 0 0\<rparr> = Inr (True, cmd, st') \<and>
       vel_desired ahead_goal_planner = Inr (twist_linear cmd))"
proof -
  have c: "isClearLine ahead_goal_planner = Inr True"
    by (rule isClearLine_clear_scan) (simp_all add: ahead_goal_planner_def example_planner_def)
  have d0: "tick_dt 50.05 50050000000 first_tick_planner = 0"
    by (simp add: tick_dt_def first_tick_planner_def example_planner_def)
  have dn: "tick_dt 49.95 49950000000 ahead_goal_planner < 0"
    by (simp add: tick_dt_def tick_time_def ahead_goal_planner_def example_planner_def)
  have a: "0 \<le> MAX_ACC ahead_goal_planner"
    by (simp add: ahead_goal_planner_def example_planner_def)
  have p: "twist_linear (last_cmd_vel first_tick_planner) = Vec3 0 0 0"
    by (simp add: first_tick_planner_def example_planner_def)
  show ?thesis
    using nonpositive_dt [OF isClearLine_first_tick, of "50.05" 50050000000
        "\<lparr>twist_linear = Vec3 0 0 0, twist_angular = Vec3 0 0 0\<rparr>"]
      nonpositive_dt [OF c, of "49.95" 49950000000
        "\<lparr>twist_linear = Vec3 0 0 0, twist_angular = Vec3 0 0 0\<rparr>"]
      isClearLine_first_tick c d0 dn a p
    by simp
qed

lemma vel_desired_direction:
  assumes "0 \<le> MAX_ACC st" "0 < length3 (goal st)"
  shows "vel_desired st =
           Inr (smul (smul (goal st) (1 / length3 (goal st)))
                  (min (MAX_VEL st) (GAIN st * sqrt (2 * length3 (goal st) * MAX_ACC st))))"
proof -
  have "\<not> 2 * length3 (goal st) * MAX_ACC st < 0"
    using assms by (simp add: mult_less_0_iff)
  with assms(2) show ?thesis
    by (simp add: vel_desired_def v_desired_norm_Finite Let_def normalized_def)
qed

lemma determineDesiredVelocity_pass:
  assumes "0 < dt" "vel_desired st = Inr vd"
    and "length3 (vsub vd (twist_linear (last_cmd_vel st))) \<le> MAX_ACC st * dt"
  shows "determineDesiredVelocity dt st cmd_vel =
           Inr \<lparr>twist_linear = vd,
                twist_angular =
                  Vec3 0 0
                    (determineReference (goal_angle st) (getZ (twist_angular (last_cmd_vel st)))
                       (MAX_VEL_THETA st) (MAX_ACC_THETA st) dt)\<rparr>"
proof -
  have "\<not> MAX_ACC st < length3 (vsub vd (twist_linear (last_cmd_vel st))) / dt"
    using assms(1,3) by (simp add: pos_less_divide_eq)
  with assms(1) show ?thesis
    by (simp add: determineDesiredVelocity_def assms(2) Let_def acc_desired_def fdiv_def
        smul_one twist_updates)
qed

lemma determineDesiredVelocity_clamp:
  assumes "0 < dt" "0 \<le> MAX_ACC st" "vel_desired st = Inr vd"
    and "MAX_ACC st * dt < length3 (vsub vd (twist_linear (last_cmd_vel st)))"
  shows "determineDesiredVelocity dt st cmd_vel =
           Inr \<lparr>twist_linear =
                  vadd (twist_linear (last_cmd_vel st))
                    (smul (smul (smul (vsub vd (twist_linear (last_cmd_vel st)))
                                   (1 / length3 (vsub vd (twist_linear (last_cmd_vel st)))))
                             (MAX_ACC st)) dt),
                twist_angular =
                  Vec3 0 0
                    (determineReference (goal_angle st) (getZ (twist_angular (last_cmd_vel st)))
                       (MAX_VEL_THETA st) (MAX_ACC_THETA st) dt)\<rparr>"
proof -
  let ?d = "vsub vd (twist_linear (last_cmd_vel st))"
  have L: "0 < length3 ?d"
    using assms(1,2,4) by (smt (verit) mult_nonneg_nonneg)
  have acc: "MAX_ACC st < length3 ?d / dt"
    using assms(1,4) by (simp add: pos_less_divide_eq)
  have n: "normalized ?d = Some (smul ?d (1 / length3 ?d))"
    using L by (simp add: normalized_def)
  show ?thesis
    using acc assms(1)
    by (simp add: determineDesiredVelocity_def assms(3) Let_def acc_desired_def fdiv_def n
        twist_updates)
qed

text \<open>
  C6. For a goal with positive error magnitude \<open>e\<close> (and a non-negative acceleration
  limit, so that the square root is defined) the desired translational speed is
  \<open>vDesired = min(maxVelTrans, gain * sqrt(2 * e * maxAccTrans))\<close> and the desired
  velocity is the unit vector towards the goal times \<open>vDesired\<close>; for error magnitude 0
  the desired speed and the desired velocity are 0. The command is the desired velocity
  when it is within \<open>maxAccTrans * dt\<close> of the previous command, and the previous command
  moved by \<open>maxAccTrans * dt\<close> towards it otherwise. With \<open>maxAccTrans = 0.15\<close>,
  \<open>maxVelTrans = 0.5\<close>, \<open>gain = 0.9\<close>, a goal 2 m straight ahead, a clear path,
  \<open>dt = 0.1\<close> and zero previous velocity, the desired speed is 0.5, the desired velocity
  \<open>(0.5, 0, 0)\<close>, and the clamp yields the command \<open>(0.015, 0, 0)\<close>, of magnitude 0.015
  along the goal direction.
\<close>

theorem desired_speed:
  "(let e = length3 (goal st);
        vDesired = min (MAX_VEL st) (GAIN st * sqrt (2 * e * MAX_ACC st));
        prev = twist_linear (last_cmd_vel st);
        rot = Vec3 0 0
                (determineReference (goal_angle st) (getZ (twist_angular (last_cmd_vel st)))
                   (MAX_VEL_THETA st) (MAX_ACC_THETA st) dt)
    in (0 \<le> MAX_ACC st \<and> 0 < e \<longrightarrow>
          v_desired_norm st = Finite vDesired \<and>
          vel_desired st = Inr (smul (smul (goal st) (1 / e)) vDesired)) \<and>
       (e = 0 \<longrightarrow> v_desired_norm st = Finite 0 \<and> vel_desired st = Inr (Vec3 0 0 0)) \<and>
       (0 < dt \<and> vel_desired st = Inr vd \<and> length3 (vsub vd prev) \<le> MAX_ACC st * dt \<longrightarrow>
          determineDesiredVelocity dt st cmd_vel =
            Inr \<lparr>twist_linear = vd, twist_angular = rot\<rparr>) \<and>
       (0 < dt \<and> 0 \<le> MAX_ACC st \<and> vel_desired st = Inr vd \<and>
        MAX_ACC st * dt < length3 (vsub vd prev) \<longrightarrow>
          determineDesiredVelocity dt st cmd_vel =
            Inr \<lparr>twist_linear =
                   vadd prev
                     (smul (smul (smul (vsub vd prev) (1 / length3 (vsub vd prev)))
                              (MAX_ACC st)) dt),
                 twist_angular = rot\<rparr>)) \<and>
   MAX_ACC ahead_goal_planner = 0.15 \<and> MAX_VEL ahead_goal_planner = 0.5 \<and>
   GAIN ahead_goal_planner = 0.9 \<and> goal ahead_goal_planner = Vec3 2 0 0 \<and>
   twist_linear (last_cmd_vel ahead_goal_planner) = Vec3 0 0 0 \<and>
   isClearLine ahead_goal_planner = Inr True \<and>
   tick_dt 50.05 50050000000 ahead_goal_planner = 0.1 \<and>
   v_desired_norm ahead_goal_planner = Finite 0.5 \<and>
   vel_desired ahead_goal_planner = Inr (Vec3 0.5 0 0) \<and>
   computeVelocityCommand 50.05 50050000000 ahead_goal_planner
     \<lparr>twist_linear = Vec3 0 0 0, twist_angular = Vec3 0 0 0\<rparr> =
   Inr (True, \<lparr>twist_linear = Vec3 0.015 0 0, twist_angular = Vec3 0 0 0\<rparr>,
        ahead_goal_planner\<lparr>t_last_cmd_vel := 100.1,
          last_cmd_vel := \<lparr>twist_linear = Vec3 0.015 0 0, twist_angular = Vec3 0 0 0\<rparr>\<rparr>) \<and>
   length3 (Vec3 0.015 0 0) = 0.015"
proof -
  have g1: "0 \<le> MAX_ACC st \<and> 0 < length3 (goal st) \<longrightarrow>
      v_desired_norm st =
        Finite (min (MAX_VEL st) (GAIN st * sqrt (2 * length3 (goal st) * MAX_ACC st)))"
    by (auto simp: v_desired_norm_Finite mult_less_0_iff)
  have g2: "length3 (goal st) = 0 \<longrightarrow> v_desired_norm st = Finite 0"
    by (auto simp: v_desired_norm_Finite)
  have g3: "length3 (goal st) = 0 \<longrightarrow> vel_desired st = Inr (Vec3 0 0 0)"
    by (simp add: length3_eq_0_iff vel_desired_zero_goal)
  have c: "isClearLine ahead_goal_planner = Inr True"
    by (rule isClearLine_clear_scan) (simp_all add: ahead_goal_planner_def example_planner_def)
  have v: "v_desired_norm ahead_goal_planner = Finite 0.5"
    by (rule v_desired_norm_two)
      (simp_all add: ahead_goal_planner_def example_planner_def length3_axis)
  have vd: "vel_desired ahead_goal_planner = Inr (Vec3 0.5 0 0)"
    by (rule vel_desired_two_ahead) (simp_all add: ahead_goal_planner_def example_planner_def)
  have dt: "tick_dt 50.05 50050000000 ahead_goal_planner = 0.1"
    by (simp add: tick_dt_def tick_time_def ahead_goal_planner_def example_planner_def)
  have f: "MAX_ACC ahead_goal_planner = 0.15 \<and> MAX_VEL ahead_goal_planner = 0.5 \<and>
   GAIN ahead_goal_planner = 0.9 \<and> goal ahead_goal_planner = Vec3 2 0 0 \<and>
   twist_linear (last_cmd_vel ahead_goal_planner) = Vec3 0 0 0"
    by (simp add: ahead_goal_planner_def example_planner_def)
  have l: "length3 (Vec3 0.015 0 0) = 0.015" by (simp add: length3_axis)
  show ?thesis
    unfolding Let_def
    using g1 g2 g3 vel_desired_direction[of st]
      determineDesiredVelocity_pass[of dt st vd cmd_vel]
      determineDesiredVelocity_clamp[of dt st vd cmd_vel]
      c v vd dt f l computeVelocityCommand_ahead
    by blast
qed

theorem desired_speed_witness:
  "0 \<le> MAX_ACC ahead_goal_planner \<and> 0 < length3 (goal ahead_goal_planner) \<and>
   v_desired_norm ahead_goal_planner = Finite 0.5 \<and>
   vel_desired ahead_goal_planner = Inr (Vec3 0.5 0 0) \<and>
   length3 (goal example_planner) = 0 \<and>
   v_desired_norm example_planner = Finite 0 \<and>
   vel_desired example_planner = Inr (Vec3 0 0 0) \<and>
   (0 :: real) < 0.1 \<and>
   vel_desired cruising_planner = Inr (Vec3 0.5 0 0) \<and>
   length3 (vsub (Vec3 0.5 0 0) (twist_linear (last_cmd_vel cruising_planner)))
     \<le> MAX_ACC cruising_planner * 0.1 \<and>
   determineDesiredVelocity 0.1 cruising_planner
       \<lparr>twist_linear = Vec3 0 0 0, twist_angular = Vec3 0 0 0\<rparr> =
     Inr \<lparr>twist_linear = Vec3 0.5 0 0, twist_angular = Vec3 0 0 0\<rparr> \<and>
   MAX_ACC ahead_goal_planner * 0.1 <
     length3 (vsub (Vec3 0.5 0 0) (twist_linear (last_cmd_vel ahead_goal_planner))) \<and>
   determineDesiredVelocity 0.1 ahead_goal_planner
       \<lparr>twist_linear = Vec3 0 0 0, twist_angular = Vec3 0 0 0\<rparr> =
     Inr \<lparr>twist_linear = Vec3 0.015 0 0, twist_angular = Vec3 0 0 0\<rparr>"
proof -
  have vda: "vel_desired ahead_goal_planner = Inr (Vec3 0.5 0 0)"
    by (rule vel_desired_two_ahead) (simp_all add: ahead_goal_planner_def example_planner_def)
  have vdc: "vel_desired cruising_planner = Inr (Vec3 0.5 0 0)"
    by (rule vel_desired_two_ahead) (simp_all add: cruising_planner_def example_planner_def)
  have va: "v_desired_norm ahead_goal_planner = Finite 0.5"
    by (rule v_desired_norm_two)
      (simp_all add: ahead_goal_planner_def example_planner_def length3_axis)
  have fa: "MAX_ACC ahead_goal_planner = 0.15" "goal ahead_goal_planner = Vec3 2 0 0"
    "twist_linear (last_cmd_vel ahead_goal_planner) = Vec3 0 0 0"
    "goal_angle ahead_goal_planner = 0"
    "getZ (twist_angular (last_cmd_vel ahead_goal_planner)) = 0"
    "MAX_ACC_THETA ahead_goal_planner = 0.25"
    by (simp_all add: ahead_goal_planner_def example_planner_def)
  have fc: "MAX_ACC cruising_planner = 0.15"
    "twist_linear (last_cmd_vel cruising_planner) = Vec3 0.49 0 0"
    "goal_angle cruising_planner = 0"
    "getZ (twist_angular (last_cmd_vel cruising_planner)) = 0"
    "MAX_ACC_THETA cruising_planner = 0.25"
    by (simp_all add: cruising_planner_def example_planner_def)
  have fe: "goal example_planner = Vec3 0 0 0"
    by (simp add: example_planner_def)
  have d1: "vsub (Vec3 0.5 0 0) (Vec3 0.49 0 0) = Vec3 0.01 0 0"
    "vsub (Vec3 0.5 0 0) (Vec3 0 0 0) = Vec3 0.5 0 0"
    by (simp_all add: vsub_def)
  show ?thesis
    using desired_speed [of ahead_goal_planner "0.1" "Vec3 0.5 0 0"
        "\<lparr>twist_linear = Vec3 0 0 0, twist_angular = Vec3 0 0 0\<rparr>"]
      desired_speed [of example_planner "0.1" "Vec3 0.5 0 0"
        "\<lparr>twist_linear = Vec3 0 0 0, twist_angular = Vec3 0 0 0\<rparr>"]
      desired_speed [of cruising_planner "0.1" "Vec3 0.5 0 0"
        "\<lparr>twist_linear = Vec3 0 0 0, twist_angular = Vec3 0 0 0\<rparr>"]
      vda vdc va
    unfolding Let_def fa fc fe d1
    by (simp add: length3_axis determineReference_zero smul_def vadd_def)
qed

end
